theory Spec2Isabelle
  imports Main
begin

chapter \<open>The model of the worker\<close>

section \<open>Python values, errors and indexing\<close>

text \<open>
  The worker (\<^verbatim>\<open>python/pyspark/worker.py\<close>) is Python: every function can raise. A call
  is modelled as a value of \<open>error + 'a\<close>, \<open>Inl\<close> carrying the exception. The two PySpark
  exception classes carry their \<^verbatim>\<open>error_class\<close> (or, where the source passes a plain
  message, a short tag for it).
\<close>

datatype error =
    PySparkTypeError string
  | PySparkRuntimeError string
  | AssertionError string
  | StopIteration
  | IndexError
  | KeyError
  | TypeError
  | ValueError string
  | AttributeError string
  | UnboundLocalError string
  | SystemExit int
  | EOFError
  | UserException string

text \<open>Column labels of a pandas DataFrame: strings or positions.\<close>

datatype label = LStr string | LInt int

text \<open>
  A pandas DataFrame, as far as the worker looks at it: its column labels and the length
  of its index. \<^verbatim>\<open>len(df)\<close> is the number of rows, \<^verbatim>\<open>len(df.columns)\<close> the number of
  columns.
\<close>

record dataframe =
  columns :: "label list"
  nrows :: nat

text \<open>
  pandas' \<^verbatim>\<open>DataFrame.empty\<close>: true when any axis has length 0. A frame with rows
  and no columns is \<^verbatim>\<open>empty\<close> (the comment in \<^verbatim>\<open>wrap_arrow_udtf.verify_result\<close> relies
  on this: "we avoid using df.empty here because the result dataframe may contain an empty
  row").
\<close>

definition df_empty :: "dataframe \<Rightarrow> bool" where
  "df_empty df = (nrows df = 0 \<or> columns df = [])"

text \<open>The Python objects that flow through the adapters.\<close>

datatype pyobj =
    PyNone
  | PyInt int
  | PyStr string
  | PyBytes string
  | PyList "pyobj list"
  | PyTuple "pyobj list"
  | PyRow "pyobj list"
  | PdSeries "pyobj list"
  | PdDataFrame dataframe

text \<open>\<^verbatim>\<open>hasattr(x, "__len__")\<close> and \<^verbatim>\<open>len(x)\<close>: \<open>None\<close> when the object has no length.\<close>

fun py_len :: "pyobj \<Rightarrow> nat option" where
  "py_len PyNone = None"
| "py_len (PyInt _) = None"
| "py_len (PyStr s) = Some (length s)"
| "py_len (PyBytes s) = Some (length s)"
| "py_len (PyList xs) = Some (length xs)"
| "py_len (PyTuple xs) = Some (length xs)"
| "py_len (PyRow xs) = Some (length xs)"
| "py_len (PdSeries xs) = Some (length xs)"
| "py_len (PdDataFrame df) = Some (nrows df)"

text \<open>\<^verbatim>\<open>xs[i]\<close> on a list or tuple: a negative index counts from the end, out of range raises.\<close>

definition py_index :: "'a list \<Rightarrow> int \<Rightarrow> error + 'a" where
  "py_index xs i =
     (if 0 \<le> i \<and> i < int (length xs) then Inr (xs ! nat i)
      else if i < 0 \<and> - int (length xs) \<le> i then Inr (xs ! nat (int (length xs) + i))
      else Inl IndexError)"

text \<open>\<^verbatim>\<open>[a[o] for o in offsets]\<close>: the first failing index raises.\<close>

fun py_index_all :: "'a list \<Rightarrow> int list \<Rightarrow> error + 'a list" where
  "py_index_all a [] = Inr []"
| "py_index_all a (o1 # os) =
     (case py_index a o1 of
        Inl e \<Rightarrow> Inl e
      | Inr v \<Rightarrow> (case py_index_all a os of Inl e \<Rightarrow> Inl e | Inr vs \<Rightarrow> Inr (v # vs)))"

text \<open>\<^verbatim>\<open>{k: a[o] for k, o in kwargs_offsets.items()}\<close>, in the dict's order.\<close>

fun py_index_kw :: "'a list \<Rightarrow> (string \<times> int) list \<Rightarrow> error + (string \<times> 'a) list" where
  "py_index_kw a [] = Inr []"
| "py_index_kw a ((k, o1) # kos) =
     (case py_index a o1 of
        Inl e \<Rightarrow> Inl e
      | Inr v \<Rightarrow> (case py_index_kw a kos of Inl e \<Rightarrow> Inl e | Inr kvs \<Rightarrow> Inr ((k, v) # kvs)))"

text \<open>A list comprehension whose element expression can raise: the first exception wins.\<close>

fun try_map :: "('a \<Rightarrow> error + 'b) \<Rightarrow> 'a list \<Rightarrow> error + 'b list" where
  "try_map g [] = Inr []"
| "try_map g (x # xs) =
     (case g x of
        Inl e \<Rightarrow> Inl e
      | Inr y \<Rightarrow> (case try_map g xs of Inl e \<Rightarrow> Inl e | Inr ys \<Rightarrow> Inr (y # ys)))"

text \<open>A column label as the Python object iteration over a frame yields.\<close>

fun label_obj :: "label \<Rightarrow> pyobj" where
  "label_obj (LStr s) = PyStr s"
| "label_obj (LInt i) = PyInt i"

text \<open>
  \<^verbatim>\<open>iter(x)\<close> run to its end: the items of a sequence or series, the characters of a
  string, the column labels of a frame; \<open>None\<close> and an integer are not iterable.
\<close>

fun py_iter :: "pyobj \<Rightarrow> error + pyobj list" where
  "py_iter PyNone = Inl TypeError"
| "py_iter (PyInt _) = Inl TypeError"
| "py_iter (PyStr s) = Inr (map (\<lambda>c. PyStr [c]) s)"
| "py_iter (PyBytes s) = Inr (map (\<lambda>c. PyInt (of_char c)) s)"
| "py_iter (PyList xs) = Inr xs"
| "py_iter (PyTuple xs) = Inr xs"
| "py_iter (PyRow xs) = Inr xs"
| "py_iter (PdSeries xs) = Inr xs"
| "py_iter (PdDataFrame df) = Inr (map label_obj (columns df))"

text \<open>
  \<^verbatim>\<open>zip(*cols)\<close> over already iterated columns: one row per position, up to the shortest
  column; no column at all gives no row.
\<close>

definition py_zip :: "'a list list \<Rightarrow> 'a list list" where
  "py_zip cols =
     (if cols = [] then []
      else map (\<lambda>i. map (\<lambda>c. c ! i) cols) [0..<min_list (map length cols)])"

text \<open>
  The declared return type, as far as the worker looks at it: a struct with its field
  names in order, the string and binary types, or another atomic type.
\<close>

datatype data_type = StructType "string list" | StringType | BinaryType | AtomicType string

text \<open>\<^verbatim>\<open>len(return_type)\<close>: the number of fields of a struct; other types have no length.\<close>

fun type_len :: "data_type \<Rightarrow> error + nat" where
  "type_len (StructType field_names) = Inr (length field_names)"
| "type_len _ = Inl TypeError"

text \<open>
  A guest callable: positional arguments, keyword arguments (name and value, in call
  order), and a result or an exception.
\<close>

type_synonym callable = "pyobj list \<Rightarrow> (string \<times> pyobj) list \<Rightarrow> error + pyobj"

text \<open>The evaluation modes \<^verbatim>\<open>worker.py\<close> dispatches on (\<^verbatim>\<open>PythonEvalType\<close>).\<close>

datatype eval_type =
    NON_UDF
  | SQL_BATCHED_UDF
  | SQL_ARROW_BATCHED_UDF
  | SQL_SCALAR_PANDAS_UDF
  | SQL_GROUPED_MAP_PANDAS_UDF
  | SQL_GROUPED_AGG_PANDAS_UDF
  | SQL_WINDOW_AGG_PANDAS_UDF
  | SQL_SCALAR_PANDAS_ITER_UDF
  | SQL_MAP_PANDAS_ITER_UDF
  | SQL_COGROUPED_MAP_PANDAS_UDF
  | SQL_MAP_ARROW_ITER_UDF
  | SQL_GROUPED_MAP_PANDAS_UDF_WITH_STATE
  | SQL_TABLE_UDF
  | SQL_ARROW_TABLE_UDF

section \<open>Function chains\<close>









section \<open>The mapper of the generic batched path\<close>

text \<open>
  A decoded UDF of \<^verbatim>\<open>read_udfs\<close>: positional offsets, keyword offsets (a dict, in its
  order) and the wrapped function.
\<close>

type_synonym ('a, 'r) udf =
  "int list \<times> (string \<times> int) list \<times> ('a list \<Rightarrow> (string \<times> 'a) list \<Rightarrow> error + 'r)"

text \<open>
  \<^verbatim>\<open>f(*[a[o] for o in args_offsets], **{k: a[o] for k, o in kwargs_offsets.items()})\<close>:
  the positional arguments are built first, then the keyword ones, then \<open>f\<close> is called.
\<close>

fun call_udf :: "'a list \<Rightarrow> ('a, 'r) udf \<Rightarrow> error + 'r" where
  "call_udf a (args_offsets, kwargs_offsets, f) =
     (case py_index_all a args_offsets of
        Inl e \<Rightarrow> Inl e
      | Inr args \<Rightarrow>
          (case py_index_kw a kwargs_offsets of
             Inl e \<Rightarrow> Inl e
           | Inr kwargs \<Rightarrow> f args kwargs))"

text \<open>The generator expression under \<^verbatim>\<open>tuple(...)\<close>: one call per UDF, in decode order.\<close>

fun mapper_tuple :: "'a list \<Rightarrow> ('a, 'r) udf list \<Rightarrow> error + 'r list" where
  "mapper_tuple a [] = Inr []"
| "mapper_tuple a (u # udfs) =
     (case call_udf a u of
        Inl e \<Rightarrow> Inl e
      | Inr r \<Rightarrow> (case mapper_tuple a udfs of Inl e \<Rightarrow> Inl e | Inr rs \<Rightarrow> Inr (r # rs)))"

text \<open>What the mapper returns: one bare result, or a tuple of results.\<close>

datatype 'r mapper_result = Single 'r | Tuple "'r list"

definition mapper :: "('a, 'r) udf list \<Rightarrow> 'a list \<Rightarrow> error + 'r mapper_result" where
  "mapper udfs a =
     (case mapper_tuple a udfs of
        Inl e \<Rightarrow> Inl e
      | Inr result \<Rightarrow>
          if length result = 1 then Inr (Single (result ! 0)) else Inr (Tuple result))"

section \<open>Bounded window aggregation\<close>

text \<open>
  \<^verbatim>\<open>s.iloc[b : e]\<close> with Python's slice rules: a negative bound counts from the end,
  both bounds are clipped to the series, and an empty range gives an empty slice.
\<close>

definition slice_bound :: "nat \<Rightarrow> int \<Rightarrow> nat" where
  "slice_bound n i = (if i < 0 then nat (max (int n + i) 0) else min (nat i) n)"

definition iloc_slice :: "'a list \<Rightarrow> int \<Rightarrow> int \<Rightarrow> 'a list" where
  "iloc_slice s b e =
     (let start = slice_bound (length s) b; stop = slice_bound (length s) e
      in take (stop - start) (drop start s))"

text \<open>\<^verbatim>\<open>end_array[i]\<close> on a numpy array, for the loop index \<open>i \<ge> 0\<close>.\<close>

definition array_index :: "'a list \<Rightarrow> nat \<Rightarrow> error + 'a" where
  "array_index xs i = (if i < length xs then Inr (xs ! i) else Inl IndexError)"

text \<open>
  One round of the loop in \<^verbatim>\<open>wrap_bounded_window_agg_pandas_udf.wrapped\<close>, for an
  index \<open>i\<close> of \<^verbatim>\<open>range(len(begin_array))\<close>. The bounds are read inside the two
  comprehensions, once per argument, so \<^verbatim>\<open>end_array[i]\<close> out of range raises only
  when there is an argument to slice.
\<close>

definition window_call ::
  "callable \<Rightarrow> int list \<Rightarrow> int list \<Rightarrow> pyobj list list \<Rightarrow> (string \<times> pyobj list) list \<Rightarrow> nat
     \<Rightarrow> error + pyobj" where
  "window_call f begin_array end_array args kwargs i =
     (if args = [] \<and> kwargs = [] then f [] []
      else (case array_index end_array i of
              Inl e \<Rightarrow> Inl e
            | Inr end_i \<Rightarrow>
                f (map (\<lambda>s. PdSeries (iloc_slice s (begin_array ! i) end_i)) args)
                  (map (\<lambda>(k, s). (k, PdSeries (iloc_slice s (begin_array ! i) end_i))) kwargs)))"

text \<open>The \<^verbatim>\<open>for\<close> loop: \<^verbatim>\<open>result.append(f(...))\<close> for each index in turn.\<close>

fun window_loop ::
  "callable \<Rightarrow> int list \<Rightarrow> int list \<Rightarrow> pyobj list list \<Rightarrow> (string \<times> pyobj list) list
     \<Rightarrow> nat list \<Rightarrow> pyobj list \<Rightarrow> error + pyobj list" where
  "window_loop f begin_array end_array args kwargs [] result = Inr result"
| "window_loop f begin_array end_array args kwargs (i # is) result =
     (case window_call f begin_array end_array args kwargs i of
        Inl e \<Rightarrow> Inl e
      | Inr r \<Rightarrow> window_loop f begin_array end_array args kwargs is (result @ [r]))"

text \<open>
  The adapter: \<^verbatim>\<open>lambda *a, **kw: (wrapped(*a, **kw), arrow_return_type)\<close>, with the
  first two positional arguments the begin and end index series. \<^verbatim>\<open>to_arrow_type\<close>
  (from \<^verbatim>\<open>pyspark.sql.pandas.types\<close>) is a parameter.
\<close>

definition wrap_bounded_window_agg_pandas_udf ::
  "('t \<Rightarrow> 'at) \<Rightarrow> callable \<Rightarrow> 't \<Rightarrow> int list \<Rightarrow> int list \<Rightarrow> pyobj list list
     \<Rightarrow> (string \<times> pyobj list) list \<Rightarrow> error + (pyobj \<times> 'at)" where
  "wrap_bounded_window_agg_pandas_udf to_arrow_type f return_type begin_index end_index args kwargs =
     (case window_loop f begin_index end_index args kwargs [0..<length begin_index] [] of
        Inl e \<Rightarrow> Inl e
      | Inr result \<Rightarrow> Inr (PdSeries result, to_arrow_type return_type))"

text \<open>The rows of a series whose position lies in the half-open interval \<open>[b, e)\<close>.\<close>

definition rows_in_interval :: "'a list \<Rightarrow> int \<Rightarrow> int \<Rightarrow> 'a list" where
  "rows_in_interval s b e = map (\<lambda>j. s ! j) (filter (\<lambda>j. b \<le> int j \<and> int j < e) [0..<length s])"

section \<open>Vectorized batch adapters\<close>

text \<open>
  \<^verbatim>\<open>verify_result_type\<close> and \<^verbatim>\<open>verify_result_length\<close>, defined alike in
  \<^verbatim>\<open>wrap_scalar_pandas_udf\<close> and \<^verbatim>\<open>wrap_arrow_batch_udf\<close>.
\<close>

definition verify_result_type :: "pyobj \<Rightarrow> error + pyobj" where
  "verify_result_type result =
     (if py_len result = None then Inl (PySparkTypeError ''UDF_RETURN_TYPE'') else Inr result)"

definition verify_result_length :: "pyobj \<Rightarrow> nat \<Rightarrow> error + pyobj" where
  "verify_result_length result len =
     (case py_len result of
        None \<Rightarrow> Inl TypeError
      | Some n \<Rightarrow>
          if n \<noteq> len then Inl (PySparkRuntimeError ''SCHEMA_MISMATCH_FOR_PANDAS_UDF'')
          else Inr result)"

text \<open>\<^verbatim>\<open>len((list(a) + list(kw.values()))[0])\<close>: the length of the first argument.\<close>

definition first_arg_len :: "pyobj list \<Rightarrow> (string \<times> pyobj) list \<Rightarrow> error + nat" where
  "first_arg_len a kw =
     (case a @ map snd kw of
        [] \<Rightarrow> Inl IndexError
      | x # _ \<Rightarrow> (case py_len x of None \<Rightarrow> Inl TypeError | Some n \<Rightarrow> Inr n))"

text \<open>
  The checks both lambdas apply to a produced result, in Python's evaluation order: the
  type check, then the length of the first argument, then the length check.
\<close>

definition verify_batch_result ::
  "pyobj \<Rightarrow> pyobj list \<Rightarrow> (string \<times> pyobj) list \<Rightarrow> 'at \<Rightarrow> error + (pyobj \<times> 'at)" where
  "verify_batch_result produced a kw arrow_return_type =
     (case verify_result_type produced of
        Inl e \<Rightarrow> Inl e
      | Inr r1 \<Rightarrow>
          (case first_arg_len a kw of
             Inl e \<Rightarrow> Inl e
           | Inr len \<Rightarrow>
               (case verify_result_length r1 len of
                  Inl e \<Rightarrow> Inl e
                | Inr r2 \<Rightarrow> Inr (r2, arrow_return_type))))"

text \<open>\<^verbatim>\<open>wrap_scalar_pandas_udf\<close>: the chain is applied to the whole argument columns.\<close>

definition wrap_scalar_pandas_udf ::
  "(data_type \<Rightarrow> 'at) \<Rightarrow> callable \<Rightarrow> data_type \<Rightarrow> pyobj list \<Rightarrow> (string \<times> pyobj) list
     \<Rightarrow> error + (pyobj \<times> 'at)" where
  "wrap_scalar_pandas_udf to_arrow_type f return_type a kw =
     (case f a kw of
        Inl e \<Rightarrow> Inl e
      | Inr result \<Rightarrow> verify_batch_result result a kw (to_arrow_type return_type))"

text \<open>
  \<^verbatim>\<open>result_func\<close> of \<^verbatim>\<open>wrap_arrow_batch_udf\<close>: \<^verbatim>\<open>str(r)\<close> for a string return type
  and \<^verbatim>\<open>bytes(r)\<close> for a binary one, unless \<open>r\<close> is \<open>None\<close>. The two builtins are
  parameters.
\<close>

definition result_func ::
  "(pyobj \<Rightarrow> error + pyobj) \<Rightarrow> (pyobj \<Rightarrow> error + pyobj) \<Rightarrow> data_type \<Rightarrow> pyobj \<Rightarrow> error + pyobj" where
  "result_func py_str py_bytes return_type r =
     (if return_type = StringType then (if r \<noteq> PyNone then py_str r else Inr r)
      else if return_type = BinaryType then (if r \<noteq> PyNone then py_bytes r else Inr r)
      else Inr r)"

text \<open>
  One element of the list comprehension in \<^verbatim>\<open>evaluate\<close>: the chain on one row, the
  first \<^verbatim>\<open>len_args\<close> values positional and the rest under their keys.
\<close>

definition arrow_row_call ::
  "(pyobj \<Rightarrow> error + pyobj) \<Rightarrow> (pyobj \<Rightarrow> error + pyobj) \<Rightarrow> callable \<Rightarrow> data_type
     \<Rightarrow> nat \<Rightarrow> string list \<Rightarrow> pyobj list \<Rightarrow> error + pyobj" where
  "arrow_row_call py_str py_bytes f return_type len_args keys row =
     (case f (take len_args row) (zip keys (drop len_args row)) of
        Inl e \<Rightarrow> Inl e
      | Inr r \<Rightarrow> result_func py_str py_bytes return_type r)"

text \<open>
  \<^verbatim>\<open>evaluate\<close>: the argument columns are zipped into rows and the chain is called once
  per row; the results make a new series.
\<close>

definition evaluate ::
  "(pyobj \<Rightarrow> error + pyobj) \<Rightarrow> (pyobj \<Rightarrow> error + pyobj) \<Rightarrow> callable \<Rightarrow> data_type
     \<Rightarrow> pyobj list \<Rightarrow> (string \<times> pyobj) list \<Rightarrow> error + pyobj" where
  "evaluate py_str py_bytes f return_type args kwargs =
     (let keys = map fst kwargs; len_args = length args
      in case try_map py_iter (args @ map snd kwargs) of
           Inl e \<Rightarrow> Inl e
         | Inr cols \<Rightarrow>
             (case try_map (arrow_row_call py_str py_bytes f return_type len_args keys) (py_zip cols) of
                Inl e \<Rightarrow> Inl e
              | Inr rs \<Rightarrow> Inr (PdSeries rs)))"

definition wrap_arrow_batch_udf ::
  "(data_type \<Rightarrow> 'at) \<Rightarrow> (pyobj \<Rightarrow> error + pyobj) \<Rightarrow> (pyobj \<Rightarrow> error + pyobj) \<Rightarrow> callable
     \<Rightarrow> data_type \<Rightarrow> pyobj list \<Rightarrow> (string \<times> pyobj) list \<Rightarrow> error + (pyobj \<times> 'at)" where
  "wrap_arrow_batch_udf to_arrow_type py_str py_bytes f return_type a kw =
     (case evaluate py_str py_bytes f return_type a kw of
        Inl e \<Rightarrow> Inl e
      | Inr result \<Rightarrow> verify_batch_result result a kw (to_arrow_type return_type))"

section \<open>Verifying a pandas result against the declared schema\<close>

text \<open>\<^verbatim>\<open>isinstance(name, str)\<close> on a column label.\<close>

fun is_str_label :: "label \<Rightarrow> bool" where
  "is_str_label (LStr _) = True"
| "is_str_label (LInt _) = False"

text \<open>
  The guard of \<^verbatim>\<open>verify_pandas_result\<close>:
  \<^verbatim>\<open>if not result.empty or len(result.columns) != 0\<close>
  ("check the schema of the result only if it is not empty or has columns").
\<close>

definition schema_is_checked :: "dataframe \<Rightarrow> bool" where
  "schema_is_checked df = (\<not> df_empty df \<or> length (columns df) \<noteq> 0)"

text \<open>
  The body under that guard. \<^verbatim>\<open>field_names\<close> is a Python set, so
  \<^verbatim>\<open>len(field_names)\<close> counts distinct names; the string test looks at all result
  columns, the name and count tests at \<^verbatim>\<open>result_columns\<close>. On a name mismatch the
  message is built first: the unexpected labels are sorted and joined with
  \<^verbatim>\<open>', '.join\<close>, which raises \<open>TypeError\<close> as soon as one of them is not a string (a
  label that is not a string is never a field name, so it is always among them).
\<close>

definition check_schema :: "dataframe \<Rightarrow> string list \<Rightarrow> bool \<Rightarrow> bool \<Rightarrow> error + unit" where
  "check_schema df field_list assign_cols_by_name truncate_return_schema =
     (let field_names = set field_list;
          result_columns =
            (if truncate_return_schema then take (card field_names) (columns df) else columns df);
          column_names = set result_columns
      in if assign_cols_by_name \<and> list_ex is_str_label (columns df)
            \<and> column_names \<noteq> LStr ` field_names
         then (if list_ex (\<lambda>name. \<not> is_str_label name) result_columns
               then Inl TypeError
               else Inl (PySparkRuntimeError ''RESULT_COLUMNS_MISMATCH_FOR_PANDAS_UDF''))
         else if length result_columns \<noteq> length field_list
         then Inl (PySparkRuntimeError ''RESULT_LENGTH_MISMATCH_FOR_PANDAS_UDF'')
         else Inr ())"

definition verify_pandas_result :: "pyobj \<Rightarrow> data_type \<Rightarrow> bool \<Rightarrow> bool \<Rightarrow> error + unit" where
  "verify_pandas_result result return_type assign_cols_by_name truncate_return_schema =
     (case return_type of
        StructType field_list \<Rightarrow>
          (case result of
             PdDataFrame df \<Rightarrow>
               if schema_is_checked df
               then check_schema df field_list assign_cols_by_name truncate_return_schema
               else Inr ()
           | _ \<Rightarrow> Inl (PySparkTypeError ''UDF_RETURN_TYPE''))
      | _ \<Rightarrow>
          (case result of
             PdSeries xs \<Rightarrow> Inr ()
           | _ \<Rightarrow> Inl (PySparkTypeError ''UDF_RETURN_TYPE'')))"

section \<open>The stateful grouped map adapter\<close>

text \<open>
  The group state handle, as far as the adapter reads it: the timeout flag. The handle
  is owned by the state store; the adapter forwards it as it is.
\<close>

record group_state =
  hasTimedOut :: bool

text \<open>
  What the chain is given as its values: the one-element list built for a timed-out
  state, or the generator \<^verbatim>\<open>(pd.concat(x, axis=1) for x in value_series_gen)\<close>, whose
  elements are computed (and may raise) only as the chain asks for them.
\<close>

datatype values_arg = ValuesList "dataframe list" | ValuesGen "(error + dataframe) list"

text \<open>
  What the chain returns: some object, or a generator, given by the items it yields and
  the exception that ends it, if one does.
\<close>

datatype chain_return = ReturnedObject pyobj | ReturnedGenerator "pyobj list" "error option"

text \<open>\<^verbatim>\<open>s[0]\<close> on a key series: its first value; an empty series has no label 0.\<close>

definition series_first :: "pyobj list \<Rightarrow> error + pyobj" where
  "series_first s = (case s of [] \<Rightarrow> Inl KeyError | v # _ \<Rightarrow> Inr v)"

text \<open>\<^verbatim>\<open>verify_element\<close> of \<^verbatim>\<open>wrap_grouped_map_pandas_udf_with_state.wrapped\<close>.\<close>

definition verify_element :: "data_type \<Rightarrow> pyobj \<Rightarrow> error + pyobj" where
  "verify_element return_type result =
     (case result of
        PdDataFrame df \<Rightarrow>
          (case type_len return_type of
             Inl e \<Rightarrow> Inl e
           | Inr n \<Rightarrow>
               if \<not> (length (columns df) = n \<or> (length (columns df) = 0 \<and> df_empty df))
               then Inl (PySparkRuntimeError ''RESULT_LENGTH_MISMATCH_FOR_PANDAS_UDF'')
               else Inr result)
      | _ \<Rightarrow> Inl (PySparkTypeError ''UDF_RETURN_TYPE''))"

text \<open>
  The generator \<^verbatim>\<open>(verify_element(x) for x in result_iter)\<close> run to its end, as the
  serializer does: the elements it yields and the exception that stops it, if any. The
  first element that fails the check stops it; \<open>ended\<close> is how the underlying iterator
  ends.
\<close>

fun run_validation ::
  "(pyobj \<Rightarrow> error + pyobj) \<Rightarrow> pyobj list \<Rightarrow> error option \<Rightarrow> pyobj list \<times> error option" where
  "run_validation v [] ended = ([], ended)"
| "run_validation v (x # xs) ended =
     (case v x of
        Inl e \<Rightarrow> ([], Some e)
      | Inr y \<Rightarrow> (case run_validation v xs ended of (ys, r) \<Rightarrow> (y # ys, r)))"

text \<open>
  The result of \<^verbatim>\<open>wrapped\<close>: the validated iterator (run to its end), the state
  handle, and \<^verbatim>\<open>value_series_gen\<close> as the adapter itself leaves it when it calls the
  chain.
\<close>

record 'x wrapped_result =
  validated :: "pyobj list"
  failure :: "error option"
  state_out :: group_state
  gen_left :: "'x list"

text \<open>
  The part of \<^verbatim>\<open>wrapped\<close> after the chain was called: a data frame or an object that
  cannot be iterated is a \<open>UDF_RETURN_TYPE\<close> error, anything else is validated element by
  element.
\<close>

definition check_result_iter ::
  "data_type \<Rightarrow> error + chain_return \<Rightarrow> group_state \<Rightarrow> 'x list \<Rightarrow> error + 'x wrapped_result" where
  "check_result_iter return_type returned state gen =
     (case returned of
        Inl e \<Rightarrow> Inl e
      | Inr (ReturnedObject (PdDataFrame df)) \<Rightarrow> Inl (PySparkTypeError ''UDF_RETURN_TYPE'')
      | Inr (ReturnedObject obj) \<Rightarrow>
          (case py_iter obj of
             Inl e \<Rightarrow> Inl (PySparkTypeError ''UDF_RETURN_TYPE'')
           | Inr items \<Rightarrow>
               (case run_validation (verify_element return_type) items None of
                  (ys, r) \<Rightarrow> Inr \<lparr>validated = ys, failure = r, state_out = state, gen_left = gen\<rparr>))
      | Inr (ReturnedGenerator items ended) \<Rightarrow>
          (case run_validation (verify_element return_type) items ended of
             (ys, r) \<Rightarrow> Inr \<lparr>validated = ys, failure = r, state_out = state, gen_left = gen\<rparr>))"

text \<open>
  The values handed to the chain, with the generator as it is afterwards. For a timed-out
  state \<^verbatim>\<open>next(value_series_gen)\<close> takes the first element (\<open>StopIteration\<close> when
  there is none) and only its column labels are kept, in a frame without rows.
  \<^verbatim>\<open>pd.concat\<close> is a parameter.
\<close>

definition chain_values ::
  "('x \<Rightarrow> error + dataframe) \<Rightarrow> group_state \<Rightarrow> 'x list \<Rightarrow> error + (values_arg \<times> 'x list)" where
  "chain_values pd_concat state value_series_gen =
     (if hasTimedOut state then
        (case value_series_gen of
           [] \<Rightarrow> Inl StopIteration
         | x # rest \<Rightarrow>
             (case pd_concat x of
                Inl e \<Rightarrow> Inl e
              | Inr df \<Rightarrow> Inr (ValuesList [\<lparr>columns = columns df, nrows = 0\<rparr>], rest)))
      else Inr (ValuesGen (map pd_concat value_series_gen), value_series_gen))"

definition wrapped ::
  "('x \<Rightarrow> error + dataframe) \<Rightarrow> (pyobj \<Rightarrow> values_arg \<Rightarrow> group_state \<Rightarrow> error + chain_return)
     \<Rightarrow> data_type \<Rightarrow> pyobj list list \<Rightarrow> 'x list \<Rightarrow> group_state \<Rightarrow> error + 'x wrapped_result" where
  "wrapped pd_concat f return_type key_series value_series_gen state =
     (case try_map series_first key_series of
        Inl e \<Rightarrow> Inl e
      | Inr ks \<Rightarrow>
          (case chain_values pd_concat state value_series_gen of
             Inl e \<Rightarrow> Inl e
           | Inr (vals, gen) \<Rightarrow>
               check_result_iter return_type (f (PyTuple ks) vals state) state gen))"

text \<open>\<^verbatim>\<open>lambda k, v, s: [(wrapped(k, v, s), to_arrow_type(return_type))]\<close>.\<close>

definition wrap_grouped_map_pandas_udf_with_state ::
  "(data_type \<Rightarrow> 'at) \<Rightarrow> ('x \<Rightarrow> error + dataframe)
     \<Rightarrow> (pyobj \<Rightarrow> values_arg \<Rightarrow> group_state \<Rightarrow> error + chain_return)
     \<Rightarrow> data_type \<Rightarrow> pyobj list list \<Rightarrow> 'x list \<Rightarrow> group_state
     \<Rightarrow> error + ('x wrapped_result \<times> 'at) list" where
  "wrap_grouped_map_pandas_udf_with_state to_arrow_type pd_concat f return_type k v s =
     (case wrapped pd_concat f return_type k v s of
        Inl e \<Rightarrow> Inl e
      | Inr w \<Rightarrow> Inr [(w, to_arrow_type return_type)])"

text \<open>A batch that is fully empty in the sense of zero columns and zero rows.\<close>

definition zero_columns_and_rows :: "dataframe \<Rightarrow> bool" where
  "zero_columns_and_rows df = (columns df = [] \<and> nrows df = 0)"

section \<open>The scalar iterator and map iterator loop\<close>

text \<open>What \<^verbatim>\<open>next(iterator)\<close> gives the guest function: an item, exhaustion, or an exception.\<close>

datatype 'a next_result = Item 'a | Exhausted | Raised error

text \<open>
  The iterator \<^verbatim>\<open>udf(iterator)\<close> returns, as the loop of \<^verbatim>\<open>read_udfs.func\<close> sees it:
  to produce its next element the guest code may first ask the input iterator for items
  (\<open>Pull\<close>, continuing with what it got), then it yields a pair of a result batch and its
  type, ends, or raises. The tree is finite: the guest code is taken to return control.
\<close>

datatype ('a, 'r) result_iter =
    Pull "'a next_result \<Rightarrow> ('a, 'r) result_iter"
  | Yield 'r "('a, 'r) result_iter"
  | Done
  | Fail error

text \<open>The mutable state of \<^verbatim>\<open>func\<close>: the two counters and the input batches not yet read.\<close>

record loop_state =
  num_input_rows :: nat
  num_output_rows :: nat
  iterator :: "pyobj list list"

text \<open>
  \<^verbatim>\<open>map_batch\<close>: the argument columns of a batch, the number of rows of the first one
  (added to \<^verbatim>\<open>num_input_rows\<close>), and the value passed on: the one column or a tuple.
\<close>

definition map_batch :: "int list \<Rightarrow> pyobj list \<Rightarrow> error + (nat \<times> pyobj)" where
  "map_batch arg_offsets batch =
     (case py_index_all batch arg_offsets of
        Inl e \<Rightarrow> Inl e
      | Inr udf_args \<Rightarrow>
          (case udf_args of
             [] \<Rightarrow> Inl IndexError
           | x # _ \<Rightarrow>
               (case py_len x of
                  None \<Rightarrow> Inl TypeError
                | Some n \<Rightarrow> Inr (n, if length udf_args = 1 then x else PyTuple udf_args))))"

text \<open>\<^verbatim>\<open>next\<close> on \<^verbatim>\<open>map(map_batch, iterator)\<close>: the batch is taken even when \<^verbatim>\<open>map_batch\<close> raises.\<close>

definition next_input :: "int list \<Rightarrow> loop_state \<Rightarrow> pyobj next_result \<times> loop_state" where
  "next_input arg_offsets st =
     (case iterator st of
        [] \<Rightarrow> (Exhausted, st)
      | batch # rest \<Rightarrow>
          (case map_batch arg_offsets batch of
             Inl e \<Rightarrow> (Raised e, st\<lparr>iterator := rest\<rparr>)
           | Inr (n, v) \<Rightarrow> (Item v, st\<lparr>iterator := rest, num_input_rows := num_input_rows st + n\<rparr>)))"

text \<open>
  The code after the \<^verbatim>\<open>for\<close> loop: for the scalar iterator mode, one more \<^verbatim>\<open>next\<close> on
  the input must find it exhausted, and the two counters must agree.
\<close>

definition after_loop :: "eval_type \<Rightarrow> int list \<Rightarrow> loop_state \<Rightarrow> error option \<times> loop_state" where
  "after_loop et arg_offsets st =
     (if et = SQL_SCALAR_PANDAS_ITER_UDF then
        (case next_input arg_offsets st of
           (Exhausted, st') \<Rightarrow>
             (if num_output_rows st' \<noteq> num_input_rows st'
              then (Some (PySparkRuntimeError ''RESULT_LENGTH_MISMATCH_FOR_SCALAR_ITER_PANDAS_UDF''), st')
              else (None, st'))
         | (Raised e, st') \<Rightarrow> (Some e, st')
         | (Item v, st') \<Rightarrow>
             (Some (PySparkRuntimeError ''STOP_ITERATION_OCCURRED_FROM_SCALAR_ITER_PANDAS_UDF''), st'))
      else (None, st))"

text \<open>
  \<^verbatim>\<open>func\<close> run to its end: the pairs it yields, the exception that stops it (if any) and
  the final state. The \<^verbatim>\<open>assert\<close> stands before the \<^verbatim>\<open>yield\<close>, so the batch that
  overruns is not emitted.
\<close>

primrec drive ::
  "eval_type \<Rightarrow> int list \<Rightarrow> (pyobj, pyobj \<times> 'at) result_iter \<Rightarrow> loop_state
     \<Rightarrow> (pyobj \<times> 'at) list \<times> error option \<times> loop_state" where
  "drive et arg_offsets (Pull k) st =
     (case next_input arg_offsets st of (res, st') \<Rightarrow> drive et arg_offsets (k res) st')"
| "drive et arg_offsets (Yield r g) st =
     (case py_len (fst r) of
        None \<Rightarrow> ([], Some TypeError, st)
      | Some n \<Rightarrow>
          (let st' = st\<lparr>num_output_rows := num_output_rows st + n\<rparr>
           in if \<not> (et = SQL_MAP_PANDAS_ITER_UDF \<or> et = SQL_MAP_ARROW_ITER_UDF
                     \<or> num_output_rows st' \<le> num_input_rows st')
              then ([], Some (AssertionError ''Pandas SCALAR_ITER UDF outputted more rows than input rows.''), st')
              else (case drive et arg_offsets g st' of (out, e, st'') \<Rightarrow> (r # out, e, st''))))"
| "drive et arg_offsets Done st = (case after_loop et arg_offsets st of (e, st') \<Rightarrow> ([], e, st'))"
| "drive et arg_offsets (Fail e) st = ([], Some e, st)"

text \<open>\<^verbatim>\<open>func(_, iterator)\<close> from its start: both counters at zero.\<close>

definition iter_func ::
  "eval_type \<Rightarrow> int list \<Rightarrow> (pyobj, pyobj \<times> 'at) result_iter \<Rightarrow> pyobj list list
     \<Rightarrow> (pyobj \<times> 'at) list \<times> error option \<times> loop_state" where
  "iter_func et arg_offsets udf batches =
     drive et arg_offsets udf \<lparr>num_input_rows = 0, num_output_rows = 0, iterator = batches\<rparr>"

text \<open>The number of rows in a list of yielded pairs.\<close>

definition output_rows :: "(pyobj \<times> 'at) list \<Rightarrow> nat" where
  "output_rows out = sum_list (map (\<lambda>r. case py_len (fst r) of None \<Rightarrow> 0 | Some n \<Rightarrow> n) out)"

section \<open>The task runner's preamble\<close>

text \<open>How \<^verbatim>\<open>main\<close> ends: it returns, it calls \<^verbatim>\<open>sys.exit\<close>, or an exception escapes it.\<close>

datatype ending = Returned | Exited int | Uncaught error

text \<open>
  What is observed of a run of \<^verbatim>\<open>main\<close>: how it ends, the input stream as it leaves
  it, and the exception it reported on the output stream, if it wrote such a report.
\<close>

record 'inp main_result =
  outcome :: ending
  infile_left :: 'inp
  reported :: "error option"

text \<open>
  The collaborators of \<^verbatim>\<open>main\<close> that are not in \<^verbatim>\<open>worker.py\<close>: \<^verbatim>\<open>read_int\<close> on
  the input stream (the value and the stream after it, or an exception); everything the
  \<^verbatim>\<open>try\<close> block does after the partition index check, from \<^verbatim>\<open>check_python_version\<close>
  to the reset of the task context (an exception or completion, and the stream after it);
  the \<^verbatim>\<open>END_OF_STREAM\<close> marker; and whether the exception report can be written (an
  \<^verbatim>\<open>IOError\<close> there is swallowed).
\<close>

record 'inp collaborators =
  read_int :: "'inp \<Rightarrow> error + (int \<times> 'inp)"
  run_task :: "int \<Rightarrow> 'inp \<Rightarrow> (error + unit) \<times> 'inp"
  END_OF_STREAM :: int
  report_writable :: bool

text \<open>
  The handler \<^verbatim>\<open>except BaseException as e\<close>: it writes the report to the output
  stream and calls \<^verbatim>\<open>sys.exit(-1)\<close>; it reads nothing.
\<close>

definition on_exception :: "'inp collaborators \<Rightarrow> error \<Rightarrow> 'inp \<Rightarrow> 'inp main_result" where
  "on_exception env e infile =
     \<lparr>outcome = Exited (- 1), infile_left = infile,
      reported = (if report_writable env then Some e else None)\<rparr>"

text \<open>
  The code after the \<^verbatim>\<open>try\<close> statement: the timing and counters are written, then one
  more integer is read; anything but the end-of-stream marker ends with
  \<^verbatim>\<open>sys.exit(-1)\<close>.
\<close>

definition after_task :: "'inp collaborators \<Rightarrow> 'inp \<Rightarrow> 'inp main_result" where
  "after_task env infile =
     (case read_int env infile of
        Inl e \<Rightarrow> \<lparr>outcome = Uncaught e, infile_left = infile, reported = None\<rparr>
      | Inr (v, infile') \<Rightarrow>
          if v = END_OF_STREAM env
          then \<lparr>outcome = Returned, infile_left = infile', reported = None\<rparr>
          else \<lparr>outcome = Exited (- 1), infile_left = infile', reported = None\<rparr>)"

text \<open>
  \<^verbatim>\<open>main\<close>. \<^verbatim>\<open>sys.exit(-1)\<close> raises \<open>SystemExit\<close> inside the \<^verbatim>\<open>try\<close> block, which
  the \<^verbatim>\<open>except BaseException\<close> handler catches like any other exception.
\<close>

definition main :: "'inp collaborators \<Rightarrow> 'inp \<Rightarrow> 'inp main_result" where
  "main env infile =
     (case read_int env infile of
        Inl e \<Rightarrow> on_exception env e infile
      | Inr (split_index, infile1) \<Rightarrow>
          if split_index = - 1 then on_exception env (SystemExit (- 1)) infile1
          else (case run_task env split_index infile1 of
                  (Inl e, infile2) \<Rightarrow> on_exception env e infile2
                | (Inr u, infile2) \<Rightarrow> after_task env infile2))"

section \<open>Table functions\<close>

text \<open>
  Attribute lookup on a handler instance: the attribute is missing (the lookup raises
  \<open>AttributeError\<close>), it is \<open>None\<close>, or it is a method.
\<close>

datatype 'm attr = Absent | IsNone | Method 'm

text \<open>
  A handler class, over the state \<open>'s\<close> of its instances: the constructor, and the
  \<^verbatim>\<open>eval\<close> and \<^verbatim>\<open>terminate\<close> attributes. A method is given the instance and its
  arguments; it raises or returns (an object or a generator), and leaves the instance in
  a new state (for a generator, the state once the worker has consumed it as far as it
  does).
\<close>

record 's handler =
  init :: "error + 's"
  eval_attr :: "('s \<Rightarrow> pyobj list \<Rightarrow> (string \<times> pyobj) list \<Rightarrow> (error + chain_return) \<times> 's) attr"
  terminate_attr :: "('s \<Rightarrow> (error + chain_return) \<times> 's) attr"

text \<open>What \<^verbatim>\<open>read_command\<close> decoded as the handler: a class, or something that is not a type.\<close>

datatype 's decoded_handler = HandlerClass "'s handler" | NotAType

text \<open>The calls made on handler instances, in order (kept to state what the manager does).\<close>

datatype event = Created | EvalCalled "pyobj list" "(string \<times> pyobj) list" | TerminateCalled

text \<open>
  The object \<^verbatim>\<open>udtf\<close> of \<^verbatim>\<open>read_udtf\<close>: a \<^verbatim>\<open>UDTFWithPartitions\<close> wrapper or a bare
  handler instance. \<open>udtf_instance\<close> is \<^verbatim>\<open>self._udtf\<close> (or the bare instance) and
  \<open>prev_arguments\<close> is \<^verbatim>\<open>self._prev_arguments\<close>.
\<close>

datatype udtf_kind = WithPartitions | Bare

record 's udtf_state =
  kind :: udtf_kind
  udtf_instance :: 's
  prev_arguments :: "pyobj list"
  trace :: "event list"

text \<open>\<^verbatim>\<open>_get_table_arg\<close>: the first argument whose type is \<^verbatim>\<open>Row\<close>.\<close>

fun get_table_arg :: "pyobj list \<Rightarrow> error + pyobj list" where
  "get_table_arg [] = Inl IndexError"
| "get_table_arg (PyRow vs # inputs) = Inr vs"
| "get_table_arg (x # inputs) = get_table_arg inputs"

text \<open>
  The loop of \<^verbatim>\<open>_check_partition_boundaries\<close> over the partitioning indexes: the
  current and the previous value at each index, as \<^verbatim>\<open>zip\<close> pairs them afterwards.
\<close>

definition partition_values :: "pyobj list \<Rightarrow> pyobj list \<Rightarrow> int list \<Rightarrow> error + (pyobj \<times> pyobj) list" where
  "partition_values cur_table_arg prev_table_arg partition_child_indexes =
     try_map (\<lambda>i. case py_index cur_table_arg i of
                     Inl e \<Rightarrow> Inl e
                   | Inr k \<Rightarrow> (case py_index prev_table_arg i of Inl e \<Rightarrow> Inl e | Inr v \<Rightarrow> Inr (k, v)))
       partition_child_indexes"

text \<open>
  Python's \<^verbatim>\<open>==\<close> followed by the truth test of its result, on the objects modelled
  here (objects are compared by value). A \<^verbatim>\<open>Row\<close> is a tuple, so it equals a tuple
  with equal items. Tuples are compared item by item up to the first difference, lists
  only when their lengths agree. A comparison with a pandas object is elementwise and its
  result has no truth value: \<open>ValueError\<close>.
\<close>

fun py_eq :: "pyobj \<Rightarrow> pyobj \<Rightarrow> error + bool"
  and py_eq_seq :: "pyobj list \<Rightarrow> pyobj list \<Rightarrow> error + bool" where
  "py_eq PyNone y =
     (case y of
        PyNone \<Rightarrow> Inr True
      | PdSeries ys \<Rightarrow> Inl (ValueError ''The truth value is ambiguous'')
      | PdDataFrame df \<Rightarrow> Inl (ValueError ''The truth value is ambiguous'')
      | _ \<Rightarrow> Inr False)"
| "py_eq (PyInt i) y =
     (case y of
        PyInt j \<Rightarrow> Inr (i = j)
      | PdSeries ys \<Rightarrow> Inl (ValueError ''The truth value is ambiguous'')
      | PdDataFrame df \<Rightarrow> Inl (ValueError ''The truth value is ambiguous'')
      | _ \<Rightarrow> Inr False)"
| "py_eq (PyStr s) y =
     (case y of
        PyStr t \<Rightarrow> Inr (s = t)
      | PdSeries ys \<Rightarrow> Inl (ValueError ''The truth value is ambiguous'')
      | PdDataFrame df \<Rightarrow> Inl (ValueError ''The truth value is ambiguous'')
      | _ \<Rightarrow> Inr False)"
| "py_eq (PyBytes s) y =
     (case y of
        PyBytes t \<Rightarrow> Inr (s = t)
      | PdSeries ys \<Rightarrow> Inl (ValueError ''The truth value is ambiguous'')
      | PdDataFrame df \<Rightarrow> Inl (ValueError ''The truth value is ambiguous'')
      | _ \<Rightarrow> Inr False)"
| "py_eq (PyList xs) y =
     (case y of
        PyList ys \<Rightarrow> (if length xs \<noteq> length ys then Inr False else py_eq_seq xs ys)
      | PdSeries ys \<Rightarrow> Inl (ValueError ''The truth value is ambiguous'')
      | PdDataFrame df \<Rightarrow> Inl (ValueError ''The truth value is ambiguous'')
      | _ \<Rightarrow> Inr False)"
| "py_eq (PyTuple xs) y =
     (case y of
        PyTuple ys \<Rightarrow> py_eq_seq xs ys
      | PyRow ys \<Rightarrow> py_eq_seq xs ys
      | PdSeries ys \<Rightarrow> Inl (ValueError ''The truth value is ambiguous'')
      | PdDataFrame df \<Rightarrow> Inl (ValueError ''The truth value is ambiguous'')
      | _ \<Rightarrow> Inr False)"
| "py_eq (PyRow xs) y =
     (case y of
        PyTuple ys \<Rightarrow> py_eq_seq xs ys
      | PyRow ys \<Rightarrow> py_eq_seq xs ys
      | PdSeries ys \<Rightarrow> Inl (ValueError ''The truth value is ambiguous'')
      | PdDataFrame df \<Rightarrow> Inl (ValueError ''The truth value is ambiguous'')
      | _ \<Rightarrow> Inr False)"
| "py_eq (PdSeries xs) y = Inl (ValueError ''The truth value is ambiguous'')"
| "py_eq (PdDataFrame df) y = Inl (ValueError ''The truth value is ambiguous'')"
| "py_eq_seq [] ys = Inr (ys = [])"
| "py_eq_seq (x # xs) ys =
     (case ys of
        [] \<Rightarrow> Inr False
      | y # ys' \<Rightarrow>
          (case py_eq x y of
             Inl e \<Rightarrow> Inl e
           | Inr b \<Rightarrow> if b then py_eq_seq xs ys' else Inr False))"

text \<open>
  \<^verbatim>\<open>any(k != v for k, v in zip(...))\<close>: the pairs are compared in order up to the first
  that differs.
\<close>

fun any_ne :: "(pyobj \<times> pyobj) list \<Rightarrow> error + bool" where
  "any_ne [] = Inr False"
| "any_ne ((k, v) # pairs) =
     (case py_eq k v of
        Inl e \<Rightarrow> Inl e
      | Inr b \<Rightarrow> if \<not> b then Inr True else any_ne pairs)"

text \<open>
  \<^verbatim>\<open>_check_partition_boundaries\<close>: whether the partition changed (or the exception),
  and the updated wrapper. \<^verbatim>\<open>self._prev_arguments\<close> is assigned before the values are
  compared, so it is updated also when the comparison raises.
\<close>

definition check_partition_boundaries ::
  "int list \<Rightarrow> 's udtf_state \<Rightarrow> pyobj list \<Rightarrow> (error + bool) \<times> 's udtf_state" where
  "check_partition_boundaries partition_child_indexes st arguments =
     (if length (prev_arguments st) > 0 then
        (case get_table_arg arguments of
           Inl e \<Rightarrow> (Inl e, st)
         | Inr cur_table_arg \<Rightarrow>
             (case get_table_arg (prev_arguments st) of
                Inl e \<Rightarrow> (Inl e, st)
              | Inr prev_table_arg \<Rightarrow>
                  (case partition_values cur_table_arg prev_table_arg partition_child_indexes of
                     Inl e \<Rightarrow> (Inl e, st)
                   | Inr pairs \<Rightarrow> (any_ne pairs, st\<lparr>prev_arguments := arguments\<rparr>))))
      else (Inr False, st\<lparr>prev_arguments := arguments\<rparr>))"

text \<open>
  \<^verbatim>\<open>if result is not None: for row in result: yield row\<close>, with the consumer's check
  \<open>verify\<close> applied to each row as it is yielded (the consumer is
  \<^verbatim>\<open>tuple(map(verify_and_convert_result, res))\<close>): the first row that fails stops the
  generator there.
\<close>

definition yield_rows :: "(pyobj \<Rightarrow> error + pyobj) \<Rightarrow> chain_return \<Rightarrow> error + pyobj list" where
  "yield_rows verify result =
     (case result of
        ReturnedObject obj \<Rightarrow>
          (if obj = PyNone then Inr []
           else (case py_iter obj of Inl e \<Rightarrow> Inl e | Inr rows \<Rightarrow> try_map verify rows))
      | ReturnedGenerator rows ended \<Rightarrow>
          (case try_map verify rows of
             Inl e \<Rightarrow> Inl e
           | Inr out \<Rightarrow> (case ended of None \<Rightarrow> Inr out | Some e \<Rightarrow> Inl e)))"

text \<open>
  \<^verbatim>\<open>self._udtf.eval\<close> looked up and, unless it is \<open>None\<close>, called, its rows yielded: the
  last part of \<^verbatim>\<open>UDTFWithPartitions.eval\<close>.
\<close>

definition eval_current ::
  "(pyobj \<Rightarrow> error + pyobj) \<Rightarrow> 's handler \<Rightarrow> 's udtf_state \<Rightarrow> pyobj list \<Rightarrow> (string \<times> pyobj) list
     \<Rightarrow> (error + pyobj list) \<times> 's udtf_state" where
  "eval_current verify h st args kwargs =
     (case eval_attr h of
        Absent \<Rightarrow> (Inl (AttributeError ''eval''), st)
      | IsNone \<Rightarrow> (Inr [], st)
      | Method m \<Rightarrow>
          (case m (udtf_instance st) args kwargs of
             (r, s') \<Rightarrow>
               (let st' = st\<lparr>udtf_instance := s', trace := trace st @ [EvalCalled args kwargs]\<rparr>
                in case r of
                     Inl e \<Rightarrow> (Inl e, st')
                   | Inr result \<Rightarrow> (yield_rows verify result, st'))))"

text \<open>
  \<^verbatim>\<open>self._udtf.terminate\<close> looked up and, unless it is \<open>None\<close>, called; \<open>None\<close> for the
  result when there is nothing to call.
\<close>

definition terminate_current ::
  "'s handler \<Rightarrow> 's udtf_state \<Rightarrow> (error + chain_return option) \<times> 's udtf_state" where
  "terminate_current h st =
     (case terminate_attr h of
        Absent \<Rightarrow> (Inl (AttributeError ''terminate''), st)
      | IsNone \<Rightarrow> (Inr None, st)
      | Method m \<Rightarrow>
          (case m (udtf_instance st) of
             (r, s') \<Rightarrow>
               (let st' = st\<lparr>udtf_instance := s', trace := trace st @ [TerminateCalled]\<rparr>
                in case r of
                     Inl e \<Rightarrow> (Inl e, st')
                   | Inr result \<Rightarrow> (Inr (Some result), st'))))"

text \<open>\<^verbatim>\<open>self._udtf = self._create_udtf()\<close>.\<close>

definition create_udtf :: "'s handler \<Rightarrow> 's udtf_state \<Rightarrow> error + 's udtf_state" where
  "create_udtf h st =
     (case init h of
        Inl e \<Rightarrow> Inl e
      | Inr s \<Rightarrow> Inr (st\<lparr>udtf_instance := s, trace := trace st @ [Created]\<rparr>))"

text \<open>
  \<^verbatim>\<open>UDTFWithPartitions.eval\<close>, a generator, run by its consumer: the rows it yields (or
  the exception that stops it) and the wrapper afterwards. On a partition change the old
  instance is terminated and its rows are yielded, then a new instance is created, and
  only then the row is evaluated.
\<close>

definition partitions_eval ::
  "(pyobj \<Rightarrow> error + pyobj) \<Rightarrow> int list \<Rightarrow> 's handler \<Rightarrow> 's udtf_state \<Rightarrow> pyobj list
     \<Rightarrow> (string \<times> pyobj) list \<Rightarrow> (error + pyobj list) \<times> 's udtf_state" where
  "partitions_eval verify partition_child_indexes h st args kwargs =
     (case check_partition_boundaries partition_child_indexes st (args @ map snd kwargs) of
        (Inl e, st1) \<Rightarrow> (Inl e, st1)
      | (Inr changed_partitions, st1) \<Rightarrow>
          if changed_partitions then
            (case terminate_current h st1 of
               (Inl e, st2) \<Rightarrow> (Inl e, st2)
             | (Inr result, st2) \<Rightarrow>
                 (case (case result of None \<Rightarrow> Inr [] | Some res \<Rightarrow> yield_rows verify res) of
                    Inl e \<Rightarrow> (Inl e, st2)
                  | Inr rows1 \<Rightarrow>
                      (case create_udtf h st2 of
                         Inl e \<Rightarrow> (Inl e, st2)
                       | Inr st3 \<Rightarrow>
                           (case eval_current verify h st3 args kwargs of
                              (Inl e, st4) \<Rightarrow> (Inl e, st4)
                            | (Inr rows2, st4) \<Rightarrow> (Inr (rows1 @ rows2), st4)))))
          else eval_current verify h st1 args kwargs)"

text \<open>\<^verbatim>\<open>hasattr(udtf, "eval")\<close> and \<^verbatim>\<open>hasattr(udtf, "terminate")\<close>: the wrapper class defines both.\<close>

definition hasattr_eval :: "'s handler \<Rightarrow> 's udtf_state \<Rightarrow> bool" where
  "hasattr_eval h udtf =
     (case kind udtf of
        WithPartitions \<Rightarrow> True
      | Bare \<Rightarrow> (case eval_attr h of Absent \<Rightarrow> False | IsNone \<Rightarrow> True | Method m \<Rightarrow> True))"

definition hasattr_terminate :: "'s handler \<Rightarrow> 's udtf_state \<Rightarrow> bool" where
  "hasattr_terminate h udtf =
     (case kind udtf of
        WithPartitions \<Rightarrow> True
      | Bare \<Rightarrow> (case terminate_attr h of Absent \<Rightarrow> False | IsNone \<Rightarrow> True | Method m \<Rightarrow> True))"

text \<open>
  \<^verbatim>\<open>read_udtf\<close> from the decoded handler to the validation: the handler must be a
  class, the return type a struct; the handler (or the wrapper around it, when there are
  partitioning indexes) is instantiated, an exception of the constructor becoming
  \<open>UDTF_EXEC_ERROR\<close>; then \<^verbatim>\<open>hasattr(udtf, "eval")\<close> is required. The three errors
  raised with a plain message are tagged \<open>INVALID_HANDLER_TYPE\<close>, \<open>INVALID_RETURN_TYPE\<close>
  and \<open>MISSING_EVAL_METHOD\<close>.
\<close>

definition read_udtf :: "int list \<Rightarrow> 's decoded_handler \<Rightarrow> data_type \<Rightarrow> error + 's udtf_state" where
  "read_udtf partition_child_indexes handler_obj return_type =
     (case handler_obj of
        NotAType \<Rightarrow> Inl (PySparkRuntimeError ''INVALID_HANDLER_TYPE'')
      | HandlerClass h \<Rightarrow>
          (case return_type of
             StructType field_list \<Rightarrow>
               (case init h of
                  Inl e \<Rightarrow> Inl (PySparkRuntimeError ''UDTF_EXEC_ERROR'')
                | Inr s \<Rightarrow>
                    (let udtf = \<lparr>kind = (if length partition_child_indexes > 0 then WithPartitions else Bare),
                                 udtf_instance = s, prev_arguments = [], trace = [Created]\<rparr>
                     in if \<not> hasattr_eval h udtf
                        then Inl (PySparkRuntimeError ''MISSING_EVAL_METHOD'')
                        else Inr udtf))
           | _ \<Rightarrow> Inl (PySparkRuntimeError ''INVALID_RETURN_TYPE'')))"

text \<open>
  \<^verbatim>\<open>isinstance(result, (list, dict, tuple)) or hasattr(result, "__dict__")\<close> on the
  objects modelled here.
\<close>

fun row_like :: "pyobj \<Rightarrow> bool" where
  "row_like (PyList xs) = True"
| "row_like (PyTuple xs) = True"
| "row_like (PyRow xs) = True"
| "row_like (PdSeries xs) = True"
| "row_like (PdDataFrame df) = True"
| "row_like x = False"

text \<open>
  \<^verbatim>\<open>verify_and_convert_result\<close> of \<^verbatim>\<open>wrap_udtf\<close>; \<^verbatim>\<open>toInternal\<close> of the return type
  is a parameter. (\<^verbatim>\<open>wrap_udtf\<close> first asserts \<^verbatim>\<open>return_type.needConversion()\<close>, a
  method of \<^verbatim>\<open>pyspark.sql.types\<close>; the assertion is taken to hold.)
\<close>

definition verify_and_convert_result :: "nat \<Rightarrow> (pyobj \<Rightarrow> error + pyobj) \<Rightarrow> pyobj \<Rightarrow> error + pyobj" where
  "verify_and_convert_result return_type_size toInternal result =
     (if result \<noteq> PyNone
         \<and> (case py_len result of None \<Rightarrow> False | Some n \<Rightarrow> n \<noteq> return_type_size)
      then Inl (PySparkRuntimeError ''UDTF_RETURN_SCHEMA_MISMATCH'')
      else if result \<noteq> PyNone \<and> \<not> row_like result
      then Inl (PySparkRuntimeError ''UDTF_INVALID_OUTPUT_ROW_TYPE'')
      else toInternal result)"

text \<open>
  \<^verbatim>\<open>evaluate\<close> of \<^verbatim>\<open>wrap_udtf\<close> after a plain method was called inside its \<^verbatim>\<open>try\<close>:
  an exception of the call becomes \<open>UDTF_EXEC_ERROR\<close>, \<open>None\<close> gives the empty tuple, a
  result that cannot be iterated is \<open>UDTF_RETURN_NOT_ITERABLE\<close>, and the rows are verified
  one by one.
\<close>

definition evaluate_result :: "(pyobj \<Rightarrow> error + pyobj) \<Rightarrow> error + chain_return \<Rightarrow> error + pyobj list" where
  "evaluate_result verify r =
     (case r of
        Inl e \<Rightarrow> Inl (PySparkRuntimeError ''UDTF_EXEC_ERROR'')
      | Inr (ReturnedObject obj) \<Rightarrow>
          (if obj = PyNone then Inr []
           else (case py_iter obj of
                   Inl e \<Rightarrow> Inl (PySparkRuntimeError ''UDTF_RETURN_NOT_ITERABLE'')
                 | Inr rows \<Rightarrow> try_map verify rows))
      | Inr (ReturnedGenerator rows ended) \<Rightarrow> yield_rows verify (ReturnedGenerator rows ended))"

text \<open>
  \<^verbatim>\<open>eval = wrap_udtf(getattr(udtf, "eval"), return_type)\<close> called on the arguments of
  one input row. The wrapper's \<^verbatim>\<open>eval\<close> is a generator function: calling it cannot
  raise, and its body runs under \<^verbatim>\<open>tuple(map(...))\<close>, outside the \<^verbatim>\<open>try\<close>. A bare
  handler's \<^verbatim>\<open>eval\<close> is called inside the \<^verbatim>\<open>try\<close>; when the attribute is \<open>None\<close> the
  call fails and the handler of that failure fails on \<^verbatim>\<open>f.__name__\<close>.
\<close>

definition udtf_eval ::
  "(pyobj \<Rightarrow> error + pyobj) \<Rightarrow> int list \<Rightarrow> 's handler \<Rightarrow> 's udtf_state \<Rightarrow> pyobj list
     \<Rightarrow> (string \<times> pyobj) list \<Rightarrow> (error + pyobj list) \<times> 's udtf_state" where
  "udtf_eval verify partition_child_indexes h st args kwargs =
     (case kind st of
        WithPartitions \<Rightarrow> partitions_eval verify partition_child_indexes h st args kwargs
      | Bare \<Rightarrow>
          (case eval_attr h of
             Absent \<Rightarrow> (Inl (AttributeError ''eval''), st)
           | IsNone \<Rightarrow> (Inl (AttributeError ''__name__''), st)
           | Method m \<Rightarrow>
               (case m (udtf_instance st) args kwargs of
                  (r, s') \<Rightarrow>
                    (evaluate_result verify r,
                     st\<lparr>udtf_instance := s', trace := trace st @ [EvalCalled args kwargs]\<rparr>))))"

text \<open>
  \<^verbatim>\<open>terminate = wrap_udtf(getattr(udtf, "terminate"), return_type)\<close> called. The
  wrapper's \<^verbatim>\<open>terminate\<close> is a plain method: it returns what the handler's
  \<^verbatim>\<open>terminate\<close> returns, or an empty iterator when that attribute is \<open>None\<close>.
\<close>

definition udtf_terminate ::
  "(pyobj \<Rightarrow> error + pyobj) \<Rightarrow> 's handler \<Rightarrow> 's udtf_state \<Rightarrow> (error + pyobj list) \<times> 's udtf_state" where
  "udtf_terminate verify h st =
     (case kind st of
        WithPartitions \<Rightarrow>
          (case terminate_current h st of
             (Inl e, st') \<Rightarrow> (Inl (PySparkRuntimeError ''UDTF_EXEC_ERROR''), st')
           | (Inr None, st') \<Rightarrow> (Inr [], st')
           | (Inr (Some result), st') \<Rightarrow> (evaluate_result verify (Inr result), st'))
      | Bare \<Rightarrow>
          (case terminate_attr h of
             Absent \<Rightarrow> (Inl (AttributeError ''terminate''), st)
           | IsNone \<Rightarrow> (Inl (AttributeError ''__name__''), st)
           | Method m \<Rightarrow>
               (case m (udtf_instance st) of
                  (r, s') \<Rightarrow>
                    (evaluate_result verify r,
                     st\<lparr>udtf_instance := s', trace := trace st @ [TerminateCalled]\<rparr>))))"

text \<open>
  The \<^verbatim>\<open>for\<close> loop of the row-based \<^verbatim>\<open>mapper\<close>: one tuple of output rows per input
  row; the first exception ends it.
\<close>

fun mapper_loop ::
  "(pyobj \<Rightarrow> error + pyobj) \<Rightarrow> int list \<Rightarrow> int list \<Rightarrow> (string \<times> int) list \<Rightarrow> 's handler
     \<Rightarrow> 's udtf_state \<Rightarrow> pyobj list list \<Rightarrow> pyobj list list \<times> error option \<times> 's udtf_state" where
  "mapper_loop verify pci args_offsets kwargs_offsets h st [] = ([], None, st)"
| "mapper_loop verify pci args_offsets kwargs_offsets h st (a # it) =
     (case py_index_all a args_offsets of
        Inl e \<Rightarrow> ([], Some e, st)
      | Inr args \<Rightarrow>
          (case py_index_kw a kwargs_offsets of
             Inl e \<Rightarrow> ([], Some e, st)
           | Inr kwargs \<Rightarrow>
               (case udtf_eval verify pci h st args kwargs of
                  (Inl e, st') \<Rightarrow> ([], Some e, st')
                | (Inr out, st') \<Rightarrow>
                    (case mapper_loop verify pci args_offsets kwargs_offsets h st' it of
                       (outs, err, st'') \<Rightarrow> (out # outs, err, st'')))))"

text \<open>
  The row-based \<^verbatim>\<open>mapper\<close> run to its end: the tuples it yields, the exception that
  ends it (if any) and the final state. The \<^verbatim>\<open>finally\<close> clause calls \<^verbatim>\<open>terminate\<close>,
  when the object has that attribute, after the input and also after an exception; an
  exception of \<^verbatim>\<open>terminate\<close> itself replaces the pending one.
\<close>

definition table_udf_mapper ::
  "(pyobj \<Rightarrow> error + pyobj) \<Rightarrow> data_type \<Rightarrow> int list \<Rightarrow> int list \<Rightarrow> (string \<times> int) list \<Rightarrow> 's handler
     \<Rightarrow> 's udtf_state \<Rightarrow> pyobj list list \<Rightarrow> pyobj list list \<times> error option \<times> 's udtf_state" where
  "table_udf_mapper toInternal return_type pci args_offsets kwargs_offsets h st it =
     (case type_len return_type of
        Inl e \<Rightarrow> ([], Some e, st)
      | Inr return_type_size \<Rightarrow>
          (let verify = verify_and_convert_result return_type_size toInternal
           in case mapper_loop verify pci args_offsets kwargs_offsets h st it of
                (outs, err, st') \<Rightarrow>
                  if hasattr_terminate h st' then
                    (case udtf_terminate verify h st' of
                       (Inl e, st'') \<Rightarrow> (outs, Some e, st'')
                     | (Inr out, st'') \<Rightarrow> (outs @ [out], err, st''))
                  else (outs, err, st')))"

text \<open>
  A method call that returns and whose rows the consumer accepts: it does not raise, and
  every row it yields passes \<open>verify\<close>.
\<close>

definition accepted :: "(pyobj \<Rightarrow> error + pyobj) \<Rightarrow> (error + chain_return) \<times> 's \<Rightarrow> bool" where
  "accepted verify r =
     (case r of
        (Inr res, s') \<Rightarrow> (case yield_rows verify res of Inl e \<Rightarrow> False | Inr out \<Rightarrow> True)
      | (Inl e, s') \<Rightarrow> False)"

text \<open>
  A handler class whose constructor returns, that has both methods, and whose method calls
  are all accepted.
\<close>

definition well_behaved :: "(pyobj \<Rightarrow> error + pyobj) \<Rightarrow> 's handler \<Rightarrow> bool" where
  "well_behaved verify h =
     (case (init h, eval_attr h, terminate_attr h) of
        (Inr s0, Method ev, Method tm) \<Rightarrow>
          (\<forall>s a kw. accepted verify (ev s a kw)) \<and> (\<forall>s. accepted verify (tm s))
      | _ \<Rightarrow> False)"

text \<open>
  The calls expected for a sequence of input rows, each a table row with its integer
  partitioning key first: from the second row on, a key that differs from the previous
  row's key is preceded by a termination and a construction; every row is evaluated.
\<close>

fun lifecycle :: "int option \<Rightarrow> (int \<times> pyobj list) list \<Rightarrow> event list" where
  "lifecycle prev [] = []"
| "lifecycle prev ((k, rest) # rows) =
     (if prev \<noteq> None \<and> prev \<noteq> Some k then [TerminateCalled, Created] else [])
     @ [EvalCalled [PyRow (PyInt k # rest)] []] @ lifecycle (Some k) rows"

chapter \<open>Properties\<close>

section \<open>Properties: function chains\<close>







section \<open>Properties: the mapper of the generic batched path\<close>

lemma mapper_tuple_Inr:
  "mapper_tuple a udfs = Inr rs \<longleftrightarrow> list_all2 (\<lambda>u r. call_udf a u = Inr r) udfs rs"
proof (induction udfs arbitrary: rs)
  case Nil
  show ?case by auto
next
  case (Cons u udfs)
  show ?case
    by (cases rs) (auto simp: Cons.IH [symmetric] split: sum.splits)
qed

lemma mapper_tuple_nth:
  "mapper_tuple a udfs = Inr rs \<longleftrightarrow>
     length rs = length udfs \<and> (\<forall>i<length udfs. call_udf a (udfs ! i) = Inr (rs ! i))"
  by (auto simp: mapper_tuple_Inr list_all2_conv_all_nth)

text \<open>
  C10. With exactly one decoded UDF the mapper returns that UDF's result itself (or its
  exception), not a 1-tuple. With \<open>n > 1\<close> UDFs it returns a tuple exactly when every UDF
  returns, and that tuple holds the \<open>n\<close> results in decode order; it never returns a bare
  result then.
\<close>

theorem mapper_single_or_tuple:
  "(length udfs = 1 \<longrightarrow>
      mapper udfs a = (case call_udf a (udfs ! 0) of Inl e \<Rightarrow> Inl e | Inr r \<Rightarrow> Inr (Single r)))
   \<and> (1 < length udfs \<longrightarrow>
      (\<forall>rs. mapper udfs a = Inr (Tuple rs) \<longleftrightarrow>
         length rs = length udfs \<and> (\<forall>i<length udfs. call_udf a (udfs ! i) = Inr (rs ! i)))
      \<and> (\<forall>r. mapper udfs a \<noteq> Inr (Single r)))"
proof (intro conjI impI allI)
  assume "length udfs = 1"
  then obtain u where u: "udfs = [u]"
    by (cases udfs) auto
  show "mapper udfs a = (case call_udf a (udfs ! 0) of Inl e \<Rightarrow> Inl e | Inr r \<Rightarrow> Inr (Single r))"
    by (simp add: u mapper_def split: sum.splits)
next
  fix rs
  assume n: "1 < length udfs"
  have "mapper udfs a = Inr (Tuple rs) \<longleftrightarrow> mapper_tuple a udfs = Inr rs"
  proof (cases "mapper_tuple a udfs")
    case (Inl e)
    then show ?thesis by (simp add: mapper_def)
  next
    case (Inr x)
    then have "length x = length udfs"
      by (simp add: mapper_tuple_nth)
    with n Inr show ?thesis by (simp add: mapper_def)
  qed
  then show "mapper udfs a = Inr (Tuple rs) \<longleftrightarrow>
      length rs = length udfs \<and> (\<forall>i<length udfs. call_udf a (udfs ! i) = Inr (rs ! i))"
    by (simp add: mapper_tuple_nth)
next
  fix r
  assume n: "1 < length udfs"
  show "mapper udfs a \<noteq> Inr (Single r)"
  proof (cases "mapper_tuple a udfs")
    case (Inl e)
    then show ?thesis by (simp add: mapper_def)
  next
    case (Inr x)
    then have "length x = length udfs"
      by (simp add: mapper_tuple_nth)
    with n Inr show ?thesis by (simp add: mapper_def)
  qed
qed

theorem mapper_single_or_tuple_witness:
  "mapper [([0], [], \<lambda>args kw. Inr (PyTuple args))] [PyInt 5, PyInt 7] = Inr (Single (PyTuple [PyInt 5]))
   \<and> mapper [([0], [], \<lambda>args kw. Inr (PyTuple args)), ([1], [], \<lambda>args kw. Inr (PyList args))]
        [PyInt 5, PyInt 7]
      = Inr (Tuple [PyTuple [PyInt 5], PyList [PyInt 7]])"
proof -
  let ?u1 = "([0], [], \<lambda>args kw. Inr (PyTuple args)) :: (pyobj, pyobj) udf"
  let ?u2 = "([1], [], \<lambda>args kw. Inr (PyList args)) :: (pyobj, pyobj) udf"
  let ?a = "[PyInt 5, PyInt 7]"
  have c1: "call_udf ?a ?u1 = Inr (PyTuple [PyInt 5])"
    by (simp add: py_index_def)
  have c2: "call_udf ?a ?u2 = Inr (PyList [PyInt 7])"
    by (simp add: py_index_def)
  have one: "mapper [?u1] ?a = Inr (Single (PyTuple [PyInt 5]))"
    using mapper_single_or_tuple [of "[?u1]" ?a] c1 by simp
  have "\<forall>i<length [?u1, ?u2]. call_udf ?a ([?u1, ?u2] ! i) = Inr ([PyTuple [PyInt 5], PyList [PyInt 7]] ! i)"
    using c1 c2 by (simp add: less_Suc_eq)
  then have two: "mapper [?u1, ?u2] ?a = Inr (Tuple [PyTuple [PyInt 5], PyList [PyInt 7]])"
    using mapper_single_or_tuple [of "[?u1, ?u2]" ?a] by simp
  from one two show ?thesis by simp
qed

section \<open>Properties: bounded window aggregation\<close>

lemma window_loop_Inr:
  "window_loop f bs es args kwargs is acc = Inr out \<longleftrightarrow>
     (\<exists>rs. out = acc @ rs \<and> list_all2 (\<lambda>i r. window_call f bs es args kwargs i = Inr r) is rs)"
proof (induction "is" arbitrary: acc)
  case Nil
  show ?case by auto
next
  case (Cons i "is")
  show ?case
  proof (cases "window_call f bs es args kwargs i")
    case (Inl e)
    then show ?thesis by (auto simp: list_all2_Cons1)
  next
    case (Inr r)
    then show ?thesis by (auto simp: Cons.IH list_all2_Cons1)
  qed
qed

lemma filter_interval_upt:
  "filter (\<lambda>j. b \<le> j \<and> j < e) [0..<n] = [min b n..<min e n]"
proof (induction n)
  case 0
  show ?case by simp
next
  case (Suc n)
  consider "b \<le> n \<and> n < e" | "n < b" | "e \<le> n" by linarith
  then show ?case
  proof cases
    case 1
    then have "min e (Suc n) = Suc n" "min b (Suc n) = b" "min e n = n" "min b n = b" by auto
    with 1 Suc show ?thesis by simp
  next
    case 2
    then have "min b (Suc n) = Suc n \<or> min b (Suc n) = b" "min b n = n" by auto
    with 2 Suc show ?thesis by auto
  next
    case 3
    then have e: "min e (Suc n) = e" "min e n = e" by auto
    have "[min b n..<e] = [min b (Suc n)..<e]"
    proof (cases "b \<le> n")
      case True
      then show ?thesis by (simp add: min_def)
    next
      case False
      with 3 show ?thesis by (simp add: min_def)
    qed
    with 3 Suc e show ?thesis by auto
  qed
qed

lemma take_drop_upt:
  assumes "e \<le> length s"
  shows "take (e - b) (drop b s) = map (\<lambda>j. s ! j) [b..<e]"
proof (rule nth_equalityI)
  show "length (take (e - b) (drop b s)) = length (map (\<lambda>j. s ! j) [b..<e])"
    using assms by auto
next
  fix i
  assume "i < length (take (e - b) (drop b s))"
  then show "take (e - b) (drop b s) ! i = map (\<lambda>j. s ! j) [b..<e] ! i"
    using assms by auto
qed

lemma iloc_slice_interval:
  assumes "0 \<le> b" "0 \<le> e"
  shows "iloc_slice s b e = rows_in_interval s b e"
proof -
  let ?n = "length s"
  have f: "filter (\<lambda>j. b \<le> int j \<and> int j < e) [0..<?n] = filter (\<lambda>j. nat b \<le> j \<and> j < nat e) [0..<?n]"
    using assms by (intro filter_cong) auto
  have "iloc_slice s b e = take (min (nat e) ?n - min (nat b) ?n) (drop (min (nat b) ?n) s)"
    using assms by (simp add: iloc_slice_def slice_bound_def Let_def)
  also have "\<dots> = map (\<lambda>j. s ! j) [min (nat b) ?n..<min (nat e) ?n]"
    by (rule take_drop_upt) simp
  also have "\<dots> = rows_in_interval s b e"
    by (simp add: rows_in_interval_def f filter_interval_upt)
  finally show ?thesis .
qed

lemma window_loop_nth:
  "window_loop f bs es args kwargs [0..<n] [] = Inr rs \<longleftrightarrow>
     length rs = n \<and> (\<forall>i<n. window_call f bs es args kwargs i = Inr (rs ! i))"
  by (auto simp: window_loop_Inr list_all2_conv_all_nth)

text \<open>
  C8. With begin and end index arrays of the same length \<open>n\<close>, the bounded window
  adapter returns exactly when the chain returns on every window, and then its result is
  a series of \<open>n\<close> rows paired with the Arrow return type, row \<open>i\<close> being the chain applied
  to every positional and keyword argument sliced with \<^verbatim>\<open>iloc[begin[i] : end[i]]\<close>.
  For bounds that are not negative that slice is the rows at positions in the half-open
  interval \<open>[begin[i], end[i])\<close>.
\<close>

theorem bounded_window_one_row_per_index:
  assumes "length end_index = length begin_index"
  shows "(wrap_bounded_window_agg_pandas_udf to_arrow_type f return_type begin_index end_index args kwargs
            = Inr out
          \<longleftrightarrow> (\<exists>rs. out = (PdSeries rs, to_arrow_type return_type)
                 \<and> length rs = length begin_index
                 \<and> (\<forall>i<length begin_index.
                       f (map (\<lambda>s. PdSeries (iloc_slice s (begin_index ! i) (end_index ! i))) args)
                         (map (\<lambda>(k, s). (k, PdSeries (iloc_slice s (begin_index ! i) (end_index ! i))))
                            kwargs)
                       = Inr (rs ! i))))
       \<and> (\<forall>i<length begin_index. \<forall>s. 0 \<le> begin_index ! i \<and> 0 \<le> end_index ! i \<longrightarrow>
             iloc_slice s (begin_index ! i) (end_index ! i)
             = rows_in_interval s (begin_index ! i) (end_index ! i))"
proof -
  have call: "window_call f begin_index end_index args kwargs i
      = f (map (\<lambda>s. PdSeries (iloc_slice s (begin_index ! i) (end_index ! i))) args)
          (map (\<lambda>(k, s). (k, PdSeries (iloc_slice s (begin_index ! i) (end_index ! i)))) kwargs)"
    if "i < length begin_index" for i
    using that assms by (simp add: window_call_def array_index_def)
  have "window_loop f begin_index end_index args kwargs [0..<length begin_index] [] = Inr rs
      \<longleftrightarrow> length rs = length begin_index
          \<and> (\<forall>i<length begin_index.
                f (map (\<lambda>s. PdSeries (iloc_slice s (begin_index ! i) (end_index ! i))) args)
                  (map (\<lambda>(k, s). (k, PdSeries (iloc_slice s (begin_index ! i) (end_index ! i))))
                     kwargs)
                = Inr (rs ! i))" for rs
    by (simp add: window_loop_nth call)
  then have first: "wrap_bounded_window_agg_pandas_udf to_arrow_type f return_type begin_index end_index
            args kwargs = Inr out
          \<longleftrightarrow> (\<exists>rs. out = (PdSeries rs, to_arrow_type return_type)
                 \<and> length rs = length begin_index
                 \<and> (\<forall>i<length begin_index.
                       f (map (\<lambda>s. PdSeries (iloc_slice s (begin_index ! i) (end_index ! i))) args)
                         (map (\<lambda>(k, s). (k, PdSeries (iloc_slice s (begin_index ! i) (end_index ! i))))
                            kwargs)
                       = Inr (rs ! i)))"
    by (cases "window_loop f begin_index end_index args kwargs [0..<length begin_index] []")
       (auto simp: wrap_bounded_window_agg_pandas_udf_def)
  show ?thesis
    using first by (simp add: iloc_slice_interval)
qed

theorem bounded_window_one_row_per_index_witness:
  "wrap_bounded_window_agg_pandas_udf (\<lambda>t. t) (\<lambda>a kw. Inr (PyList a)) ''struct'' [0, 1] [2, 3]
      [[PyInt 10, PyInt 20, PyInt 30]] []
   = Inr (PdSeries [PyList [PdSeries [PyInt 10, PyInt 20]], PyList [PdSeries [PyInt 20, PyInt 30]]],
          ''struct'')"
proof -
  let ?f = "(\<lambda>a kw. Inr (PyList a)) :: callable"
  let ?rs = "[PyList [PdSeries [PyInt 10, PyInt 20]], PyList [PdSeries [PyInt 20, PyInt 30]]]"
  let ?args = "[[PyInt 10, PyInt 20, PyInt 30]]"
  let ?kw = "[] :: (string \<times> pyobj list) list"
  have len: "length [2, 3 :: int] = length [0, 1 :: int]" by simp
  have s0: "iloc_slice [PyInt 10, PyInt 20, PyInt 30] 0 2 = [PyInt 10, PyInt 20]"
    by (simp add: iloc_slice_def slice_bound_def)
  have s1: "iloc_slice [PyInt 10, PyInt 20, PyInt 30] 1 3 = [PyInt 20, PyInt 30]"
    by (simp add: iloc_slice_def slice_bound_def)
  have rows: "\<exists>rs. (PdSeries ?rs, ''struct'') = (PdSeries rs, (\<lambda>t. t) ''struct'')
       \<and> length rs = length [0, 1 :: int]
       \<and> (\<forall>i<length [0, 1 :: int].
             ?f (map (\<lambda>s. PdSeries (iloc_slice s ([0, 1] ! i) ([2, 3] ! i))) ?args)
                (map (\<lambda>(k, s). (k, PdSeries (iloc_slice s ([0, 1] ! i) ([2, 3] ! i)))) ?kw)
             = Inr (rs ! i))"
    by (rule exI [of _ ?rs]) (simp add: s0 s1 less_Suc_eq)
  note th = bounded_window_one_row_per_index [OF len, of "\<lambda>t. t" ?f "''struct''" ?args ?kw
      "(PdSeries ?rs, ''struct'')"]
  show ?thesis
    by (rule iffD2 [OF conjunct1 [OF th] rows])
qed

section \<open>Properties: vectorized batch adapters\<close>

lemma try_map_Inr:
  "try_map g xs = Inr ys \<longleftrightarrow> list_all2 (\<lambda>x y. g x = Inr y) xs ys"
proof (induction xs arbitrary: ys)
  case Nil
  show ?case by auto
next
  case (Cons x xs)
  show ?case
    by (cases ys) (auto simp: Cons.IH [symmetric] split: sum.splits)
qed

lemma try_map_nth:
  "try_map g xs = Inr ys \<longleftrightarrow>
     length ys = length xs \<and> (\<forall>i<length xs. g (xs ! i) = Inr (ys ! i))"
  by (auto simp: try_map_Inr list_all2_conv_all_nth)

lemma try_map_py_iter_series: "try_map py_iter (map PdSeries cols) = Inr cols"
  by (induction cols) auto

lemma min_list_const:
  assumes "cols \<noteq> []" "\<forall>c\<in>set cols. length c = n"
  shows "min_list (map length cols) = n"
  using assms
proof (induction cols)
  case Nil
  then show ?case by simp
next
  case (Cons c cols)
  then show ?case by (cases cols) auto
qed

lemma py_zip_rows:
  assumes "cols \<noteq> []" "\<forall>c\<in>set cols. length c = n"
  shows "py_zip cols = map (\<lambda>i. map (\<lambda>c. c ! i) cols) [0..<n]"
  using assms(1) min_list_const [OF assms] by (simp add: py_zip_def)

lemma evaluate_series:
  assumes "acols @ map snd kcols \<noteq> []" "\<forall>c\<in>set (acols @ map snd kcols). length c = n"
  shows "evaluate py_str py_bytes g rt (map PdSeries acols) (map (\<lambda>(k, c). (k, PdSeries c)) kcols)
           = Inr out
         \<longleftrightarrow> (\<exists>rs. out = PdSeries rs \<and> length rs = n
               \<and> (\<forall>i<n. arrow_row_call py_str py_bytes g rt (length acols) (map fst kcols)
                           (map (\<lambda>c. c ! i) (acols @ map snd kcols)) = Inr (rs ! i)))"
proof -
  define rows where "rows = map (\<lambda>i. map (\<lambda>c. c ! i) (acols @ map snd kcols)) [0..<n]"
  define call where "call = arrow_row_call py_str py_bytes g rt (length acols) (map fst kcols)"
  have m: "map snd (map (\<lambda>(k, c). (k, PdSeries c)) kcols) = map PdSeries (map snd kcols)"
    by (induction kcols) auto
  have k: "map fst (map (\<lambda>(k, c). (k, PdSeries c)) kcols) = map fst kcols"
    by (induction kcols) auto
  have it: "try_map py_iter (map PdSeries acols @ map PdSeries (map snd kcols)) = Inr (acols @ map snd kcols)"
    using try_map_py_iter_series [of "acols @ map snd kcols"] by simp
  have ev: "evaluate py_str py_bytes g rt (map PdSeries acols) (map (\<lambda>(k, c). (k, PdSeries c)) kcols)
      = (case try_map call rows of Inl e \<Rightarrow> Inl e | Inr rs \<Rightarrow> Inr (PdSeries rs))"
    unfolding evaluate_def Let_def m k it rows_def call_def
    by (simp add: py_zip_rows [OF assms])
  have nth: "try_map call rows = Inr rs \<longleftrightarrow>
      length rs = n \<and> (\<forall>i<n. call (map (\<lambda>c. c ! i) (acols @ map snd kcols)) = Inr (rs ! i))" for rs
    by (simp add: try_map_nth rows_def)
  have "(\<exists>rs. out = PdSeries rs \<and> length rs = n
          \<and> (\<forall>i<n. call (map (\<lambda>c. c ! i) (acols @ map snd kcols)) = Inr (rs ! i)))
        \<longleftrightarrow> (\<exists>rs. out = PdSeries rs \<and> try_map call rows = Inr rs)"
    by (simp add: nth)
  also have "\<dots> \<longleftrightarrow> (case try_map call rows of Inl e \<Rightarrow> Inl e | Inr rs \<Rightarrow> Inr (PdSeries rs)) = Inr out"
    by (cases "try_map call rows") auto
  finally show ?thesis
    unfolding ev call_def by simp
qed

lemma first_arg_len_series:
  assumes "acols @ map snd kcols \<noteq> []" "\<forall>c\<in>set (acols @ map snd kcols). length c = n"
  shows "first_arg_len (map PdSeries acols) (map (\<lambda>(k, c). (k, PdSeries c)) kcols) = Inr n"
proof -
  have m: "map snd (map (\<lambda>(k, c). (k, PdSeries c)) kcols) = map PdSeries (map snd kcols)"
    by (induction kcols) auto
  obtain c cs where c: "acols @ map snd kcols = c # cs"
    using assms(1) by (cases "acols @ map snd kcols") auto
  then have n: "length c = n"
    using assms(2) by simp
  have e: "map PdSeries acols @ map snd (map (\<lambda>(k, c). (k, PdSeries c)) kcols)
      = PdSeries c # map PdSeries cs"
    unfolding m using c by (metis list.simps(9) map_append)
  show ?thesis
    unfolding first_arg_len_def e using n by simp
qed

lemma verify_batch_result_series:
  assumes "first_arg_len a kw = Inr n"
  shows "verify_batch_result (PdSeries rs) a kw at
           = (if length rs = n then Inr (PdSeries rs, at)
              else Inl (PySparkRuntimeError ''SCHEMA_MISMATCH_FOR_PANDAS_UDF''))"
  using assms by (simp add: verify_batch_result_def verify_result_type_def verify_result_length_def)

text \<open>
  C5 (as amended). The scalar pandas adapter applies the chain to the whole argument
  columns: a result with no length raises \<open>UDF_RETURN_TYPE\<close>, a result whose length differs
  from the length of the first argument raises \<open>SCHEMA_MISMATCH_FOR_PANDAS_UDF\<close>, and no
  result is returned in either case; a result of the right length is returned with the
  Arrow return type. The Arrow batched adapter calls the chain once per row: when the
  argument columns are series of one length \<open>n\<close>, it returns exactly when the chain (with
  the string or bytes coercion) returns on every row, and then the result is a series of
  \<open>n\<close> entries, whatever length the chain's own results have or lack.
\<close>

theorem vectorized_batch_result_checks:
  "(f a kw = Inr result \<longrightarrow>
       (py_len result = None \<longrightarrow>
          wrap_scalar_pandas_udf to_arrow_type f rt a kw = Inl (PySparkTypeError ''UDF_RETURN_TYPE''))
     \<and> (\<forall>m n. py_len result = Some m \<and> first_arg_len a kw = Inr n \<and> m \<noteq> n \<longrightarrow>
          wrap_scalar_pandas_udf to_arrow_type f rt a kw
            = Inl (PySparkRuntimeError ''SCHEMA_MISMATCH_FOR_PANDAS_UDF''))
     \<and> (\<forall>n. py_len result = Some n \<and> first_arg_len a kw = Inr n \<longrightarrow>
          wrap_scalar_pandas_udf to_arrow_type f rt a kw = Inr (result, to_arrow_type rt)))
   \<and> (acols @ map snd kcols \<noteq> [] \<and> (\<forall>c\<in>set (acols @ map snd kcols). length c = n) \<longrightarrow>
       (\<forall>out. wrap_arrow_batch_udf to_arrow_type py_str py_bytes g rt
                 (map PdSeries acols) (map (\<lambda>(k, c). (k, PdSeries c)) kcols) = Inr out
          \<longleftrightarrow> (\<exists>rs. out = (PdSeries rs, to_arrow_type rt) \<and> length rs = n
                \<and> (\<forall>i<n. arrow_row_call py_str py_bytes g rt (length acols) (map fst kcols)
                            (map (\<lambda>c. c ! i) (acols @ map snd kcols)) = Inr (rs ! i)))))"
proof (intro conjI impI allI)
  assume "f a kw = Inr result" "py_len result = None"
  then show "wrap_scalar_pandas_udf to_arrow_type f rt a kw = Inl (PySparkTypeError ''UDF_RETURN_TYPE'')"
    by (simp add: wrap_scalar_pandas_udf_def verify_batch_result_def verify_result_type_def)
next
  fix m n
  assume "f a kw = Inr result" "py_len result = Some m \<and> first_arg_len a kw = Inr n \<and> m \<noteq> n"
  then show "wrap_scalar_pandas_udf to_arrow_type f rt a kw
      = Inl (PySparkRuntimeError ''SCHEMA_MISMATCH_FOR_PANDAS_UDF'')"
    by (simp add: wrap_scalar_pandas_udf_def verify_batch_result_def verify_result_type_def
        verify_result_length_def)
next
  fix n
  assume "f a kw = Inr result" "py_len result = Some n \<and> first_arg_len a kw = Inr n"
  then show "wrap_scalar_pandas_udf to_arrow_type f rt a kw = Inr (result, to_arrow_type rt)"
    by (simp add: wrap_scalar_pandas_udf_def verify_batch_result_def verify_result_type_def
        verify_result_length_def)
next
  fix out
  assume h: "acols @ map snd kcols \<noteq> [] \<and> (\<forall>c\<in>set (acols @ map snd kcols). length c = n)"
  let ?a = "map PdSeries acols"
  let ?kw = "map (\<lambda>(k, c). (k, PdSeries c)) kcols"
  have fl: "first_arg_len ?a ?kw = Inr n"
    using h by (intro first_arg_len_series) auto
  have ev: "evaluate py_str py_bytes g rt ?a ?kw = Inr r
         \<longleftrightarrow> (\<exists>rs. r = PdSeries rs \<and> length rs = n
               \<and> (\<forall>i<n. arrow_row_call py_str py_bytes g rt (length acols) (map fst kcols)
                           (map (\<lambda>c. c ! i) (acols @ map snd kcols)) = Inr (rs ! i)))" for r
    using h by (intro evaluate_series) auto
  show "wrap_arrow_batch_udf to_arrow_type py_str py_bytes g rt ?a ?kw = Inr out
          \<longleftrightarrow> (\<exists>rs. out = (PdSeries rs, to_arrow_type rt) \<and> length rs = n
                \<and> (\<forall>i<n. arrow_row_call py_str py_bytes g rt (length acols) (map fst kcols)
                            (map (\<lambda>c. c ! i) (acols @ map snd kcols)) = Inr (rs ! i)))"
  proof (cases "evaluate py_str py_bytes g rt ?a ?kw")
    case (Inl e)
    then show ?thesis
      using ev by (auto simp: wrap_arrow_batch_udf_def)
  next
    case (Inr r)
    then obtain rs where rs: "r = PdSeries rs" "length rs = n"
      "\<forall>i<n. arrow_row_call py_str py_bytes g rt (length acols) (map fst kcols)
                 (map (\<lambda>c. c ! i) (acols @ map snd kcols)) = Inr (rs ! i)"
      using ev by blast
    have w: "wrap_arrow_batch_udf to_arrow_type py_str py_bytes g rt ?a ?kw
        = Inr (PdSeries rs, to_arrow_type rt)"
      using Inr rs(1,2) by (simp add: wrap_arrow_batch_udf_def verify_batch_result_series [OF fl])
    have uniq: "rs' = rs" if "length rs' = n"
      "\<forall>i<n. arrow_row_call py_str py_bytes g rt (length acols) (map fst kcols)
                 (map (\<lambda>c. c ! i) (acols @ map snd kcols)) = Inr (rs' ! i)" for rs'
      using that rs(2,3) by (auto simp: list_eq_iff_nth_eq)
    show ?thesis
      unfolding w using rs(2,3) uniq by auto
  qed
qed

theorem vectorized_batch_result_checks_witness:
  "wrap_scalar_pandas_udf (\<lambda>t. t) (\<lambda>a kw. Inr (PdSeries [PyInt 1])) (AtomicType ''int'')
      [PdSeries [PyInt 1, PyInt 2]] []
     = Inl (PySparkRuntimeError ''SCHEMA_MISMATCH_FOR_PANDAS_UDF'')
   \<and> wrap_arrow_batch_udf (\<lambda>t. t) Inr Inr (\<lambda>a kw. Inr (PyStr ''ab'')) (AtomicType ''int'')
      [PdSeries [PyInt 1, PyInt 2, PyInt 3]] []
     = Inr (PdSeries [PyStr ''ab'', PyStr ''ab'', PyStr ''ab''], AtomicType ''int'')"
proof -
  let ?f = "(\<lambda>a kw. Inr (PdSeries [PyInt 1])) :: callable"
  let ?g = "(\<lambda>a kw. Inr (PyStr ''ab'')) :: callable"
  let ?rs = "[PyStr ''ab'', PyStr ''ab'', PyStr ''ab'']"
  note th = vectorized_batch_result_checks [of ?f "[PdSeries [PyInt 1, PyInt 2]]" "[]"
      "PdSeries [PyInt 1]" "\<lambda>t. t" "AtomicType ''int''" "[[PyInt 1, PyInt 2, PyInt 3]]" "[]" 3
      Inr Inr ?g]
  have scalar: "wrap_scalar_pandas_udf (\<lambda>t. t) ?f (AtomicType ''int'') [PdSeries [PyInt 1, PyInt 2]] []
      = Inl (PySparkRuntimeError ''SCHEMA_MISMATCH_FOR_PANDAS_UDF'')"
    using th by (simp add: first_arg_len_def)
  have rows: "\<exists>rs. (PdSeries ?rs, AtomicType ''int'') = (PdSeries rs, (\<lambda>t. t) (AtomicType ''int''))
      \<and> length rs = 3
      \<and> (\<forall>i<3. arrow_row_call Inr Inr ?g (AtomicType ''int'') (length [[PyInt 1, PyInt 2, PyInt 3]])
                  (map fst ([] :: (string \<times> pyobj list) list))
                  (map (\<lambda>c. c ! i) ([[PyInt 1, PyInt 2, PyInt 3]] @ map snd ([] :: (string \<times> pyobj list) list)))
                = Inr (rs ! i))"
    by (rule exI [of _ ?rs]) (simp add: arrow_row_call_def result_func_def less_Suc_eq numeral_3_eq_3)
  have arrow: "wrap_arrow_batch_udf (\<lambda>t. t) Inr Inr ?g (AtomicType ''int'')
      [PdSeries [PyInt 1, PyInt 2, PyInt 3]] []
     = Inr (PdSeries ?rs, AtomicType ''int'')"
    using th rows by simp
  from scalar arrow show ?thesis by simp
qed

text \<open>
  C5 as stated fails for the Arrow batched adapter: over a batch of three rows, a chain
  that returns the two-character string \<open>ab\<close> (a length other than 3) does not make the
  adapter raise; the adapter returns a series of three strings.
\<close>

theorem arrow_batch_result_length_counterexample:
  "\<not> (\<forall>(g :: callable) r. (\<forall>args kwargs. g args kwargs = Inr r) \<and> py_len r \<noteq> Some 3 \<longrightarrow>
        (\<exists>e. wrap_arrow_batch_udf (\<lambda>t. t) Inr Inr g (AtomicType ''int'')
               [PdSeries [PyInt 1, PyInt 2, PyInt 3]] [] = Inl e))"
proof
  assume claim: "\<forall>(g :: callable) r. (\<forall>args kwargs. g args kwargs = Inr r) \<and> py_len r \<noteq> Some 3 \<longrightarrow>
        (\<exists>e. wrap_arrow_batch_udf (\<lambda>t. t) Inr Inr g (AtomicType ''int'')
               [PdSeries [PyInt 1, PyInt 2, PyInt 3]] [] = Inl e)"
  have "\<exists>e. wrap_arrow_batch_udf (\<lambda>t. t) Inr Inr (\<lambda>args kwargs. Inr (PyStr ''ab'')) (AtomicType ''int'')
               [PdSeries [PyInt 1, PyInt 2, PyInt 3]] [] = Inl e"
    using claim [rule_format, of "\<lambda>args kwargs. Inr (PyStr ''ab'')" "PyStr ''ab''"] by simp
  moreover have "wrap_arrow_batch_udf (\<lambda>t. t) Inr Inr (\<lambda>args kwargs. Inr (PyStr ''ab'')) (AtomicType ''int'')
               [PdSeries [PyInt 1, PyInt 2, PyInt 3]] []
     = Inr (PdSeries [PyStr ''ab'', PyStr ''ab'', PyStr ''ab''], AtomicType ''int'')"
    by code_simp
  ultimately show False by simp
qed

section \<open>Properties: verifying a pandas result against the declared schema\<close>

text \<open>
  C2 (as amended). For a structured return type, a data frame with no columns, whatever
  its row count, skips both the column name check and the column count check and is
  accepted; the checks are skipped for no other frame, so a frame with zero rows that has
  columns is checked like any other.
\<close>

theorem empty_result_skips_checks_only_without_columns:
  "(columns df = [] \<longrightarrow>
      verify_pandas_result (PdDataFrame df) (StructType field_list) assign_cols_by_name
        truncate_return_schema = Inr ())
   \<and> (columns df \<noteq> [] \<longrightarrow>
      schema_is_checked df
      \<and> verify_pandas_result (PdDataFrame df) (StructType field_list) assign_cols_by_name
          truncate_return_schema
        = check_schema df field_list assign_cols_by_name truncate_return_schema)"
  by (simp add: verify_pandas_result_def schema_is_checked_def df_empty_def)

theorem empty_result_skips_checks_only_without_columns_witness:
  "verify_pandas_result (PdDataFrame \<lparr>columns = [], nrows = 4\<rparr>) (StructType [''x'']) True False = Inr ()
   \<and> verify_pandas_result (PdDataFrame \<lparr>columns = [LStr ''y''], nrows = 0\<rparr>) (StructType [''x''])
        True False
     = check_schema \<lparr>columns = [LStr ''y''], nrows = 0\<rparr> [''x''] True False"
  using empty_result_skips_checks_only_without_columns
          [of "\<lparr>columns = [], nrows = 4\<rparr>" "[''x'']" True False]
        empty_result_skips_checks_only_without_columns
          [of "\<lparr>columns = [LStr ''y''], nrows = 0\<rparr>" "[''x'']" True False]
  by simp

text \<open>
  C2 as stated fails for a result with zero rows that has columns: with names assigned by
  column name, an empty frame with the columns \<open>a\<close>, \<open>b\<close> against the one field \<open>x\<close>
  raises \<open>RESULT_COLUMNS_MISMATCH_FOR_PANDAS_UDF\<close>, and an empty frame with two positional
  columns raises \<open>RESULT_LENGTH_MISMATCH_FOR_PANDAS_UDF\<close>.
\<close>

theorem zero_row_result_is_checked_counterexample:
  "verify_pandas_result (PdDataFrame \<lparr>columns = [LStr ''a'', LStr ''b''], nrows = 0\<rparr>)
      (StructType [''x'']) True False
     = Inl (PySparkRuntimeError ''RESULT_COLUMNS_MISMATCH_FOR_PANDAS_UDF'')
   \<and> verify_pandas_result (PdDataFrame \<lparr>columns = [LInt 0, LInt 1], nrows = 0\<rparr>)
      (StructType [''x'']) True False
     = Inl (PySparkRuntimeError ''RESULT_LENGTH_MISMATCH_FOR_PANDAS_UDF'')"
  by (simp add: verify_pandas_result_def schema_is_checked_def df_empty_def check_schema_def)

section \<open>Properties: the stateful grouped map adapter\<close>

lemma run_validation_elements:
  "run_validation v xs ended = (ys, r) \<Longrightarrow> y \<in> set ys \<Longrightarrow> \<exists>x. v x = Inr y"
proof (induction xs arbitrary: ys)
  case Nil
  then show ?case by simp
next
  case (Cons x xs)
  then show ?case
    by (auto split: sum.splits prod.splits)
qed

lemma verify_element_Inr:
  "verify_element return_type x = Inr y \<Longrightarrow>
     \<exists>df. y = PdDataFrame df
        \<and> (type_len return_type = Inr (length (columns df)) \<or> columns df = [])"
  by (auto simp: verify_element_def split: pyobj.splits sum.splits if_splits)

lemma check_result_iter_elements:
  assumes "check_result_iter return_type returned state gen = Inr w" "y \<in> set (validated w)"
  shows "\<exists>x. verify_element return_type x = Inr y"
  using assms run_validation_elements [of "verify_element return_type" _ _ "validated w" "failure w" y]
  by (auto simp: check_result_iter_def split: sum.splits chain_return.splits pyobj.splits prod.splits)

text \<open>
  C1 (as amended). When the group state has timed out, the adapter takes exactly the
  first element of the value sequence, to read its column labels, and calls the chain
  with a one-element list holding a frame with those labels and no rows; the rest of the
  value sequence is left unread and the chain does not get it. Every element the
  validated result sequence yields is a data frame whose column count equals the declared
  field count or that has no columns (pandas counts such a frame as empty whatever its
  row count).
\<close>

theorem timed_out_group_is_given_an_empty_batch:
  assumes "hasTimedOut state"
  shows "(try_map series_first key_series = Inr ks \<and> pd_concat x = Inr df \<longrightarrow>
            wrapped pd_concat f return_type key_series (x # rest) state
            = check_result_iter return_type
                (f (PyTuple ks) (ValuesList [\<lparr>columns = columns df, nrows = 0\<rparr>]) state) state rest)
       \<and> (\<forall>w. wrapped pd_concat f return_type key_series value_series_gen state = Inr w \<longrightarrow>
             (\<exists>x. value_series_gen = x # gen_left w)
             \<and> (\<forall>y\<in>set (validated w). \<exists>d. y = PdDataFrame d
                   \<and> (type_len return_type = Inr (length (columns d)) \<or> columns d = [])))"
proof (intro conjI impI allI)
  assume "try_map series_first key_series = Inr ks \<and> pd_concat x = Inr df"
  then show "wrapped pd_concat f return_type key_series (x # rest) state
      = check_result_iter return_type
          (f (PyTuple ks) (ValuesList [\<lparr>columns = columns df, nrows = 0\<rparr>]) state) state rest"
    using assms by (simp add: wrapped_def chain_values_def)
next
  fix w
  assume w: "wrapped pd_concat f return_type key_series value_series_gen state = Inr w"
  then obtain ks vals gen where
    ks: "try_map series_first key_series = Inr ks" and
    cv: "chain_values pd_concat state value_series_gen = Inr (vals, gen)" and
    cr: "check_result_iter return_type (f (PyTuple ks) vals state) state gen = Inr w"
    by (auto simp: wrapped_def split: sum.splits prod.splits)
  from cv assms obtain x where x: "value_series_gen = x # gen"
    by (auto simp: chain_values_def split: list.splits sum.splits)
  have "gen_left w = gen"
    using cr by (auto simp: check_result_iter_def split: sum.splits chain_return.splits pyobj.splits prod.splits)
  with x show "\<exists>x. value_series_gen = x # gen_left w"
    by simp
  show "\<forall>y\<in>set (validated w). \<exists>d. y = PdDataFrame d
          \<and> (type_len return_type = Inr (length (columns d)) \<or> columns d = [])"
    using check_result_iter_elements [OF cr] verify_element_Inr by blast
qed

theorem timed_out_group_is_given_an_empty_batch_witness:
  "wrapped (\<lambda>cols. Inr \<lparr>columns = cols, nrows = 5\<rparr>)
      (\<lambda>key vals st. Inr (ReturnedGenerator
          (case vals of ValuesList dfs \<Rightarrow> map PdDataFrame dfs | ValuesGen g \<Rightarrow> []) None))
      (StructType [''v'']) [[PyInt 1]] [[LStr ''v''], [LStr ''v'']] \<lparr>hasTimedOut = True\<rparr>
   = Inr \<lparr>validated = [PdDataFrame \<lparr>columns = [LStr ''v''], nrows = 0\<rparr>], failure = None,
          state_out = \<lparr>hasTimedOut = True\<rparr>, gen_left = [[LStr ''v'']]\<rparr>"
proof -
  have t: "hasTimedOut \<lparr>hasTimedOut = True\<rparr>" by simp
  show ?thesis
    using timed_out_group_is_given_an_empty_batch [OF t, of "[[PyInt 1]]" "[PyInt 1]"
        "\<lambda>cols. Inr \<lparr>columns = cols, nrows = 5\<rparr>" "[LStr ''v'']" "\<lparr>columns = [LStr ''v''], nrows = 5\<rparr>"
        "\<lambda>key vals st. Inr (ReturnedGenerator
          (case vals of ValuesList dfs \<Rightarrow> map PdDataFrame dfs | ValuesGen g \<Rightarrow> []) None)"
        "StructType [''v'']" "[[LStr ''v'']]"]
    by (simp add: series_first_def check_result_iter_def verify_element_def df_empty_def)
qed

text \<open>
  C1 as stated fails: with a timed-out state the adapter does read the value sequence
  (its first element is gone afterwards), and a result frame with no columns and two rows
  passes the check against a one-field schema although it neither has one column nor is
  empty in the sense of zero columns and zero rows.
\<close>

theorem timed_out_group_counterexample:
  "wrapped (\<lambda>cols. Inr \<lparr>columns = cols, nrows = 5\<rparr>)
      (\<lambda>key vals st. Inr (ReturnedGenerator [PdDataFrame \<lparr>columns = [], nrows = 2\<rparr>] None))
      (StructType [''a'']) [[PyInt 1]] [[LStr ''v''], [LStr ''w'']] \<lparr>hasTimedOut = True\<rparr>
   = Inr \<lparr>validated = [PdDataFrame \<lparr>columns = [], nrows = 2\<rparr>], failure = None,
          state_out = \<lparr>hasTimedOut = True\<rparr>, gen_left = [[LStr ''w'']]\<rparr>
   \<and> \<not> (length (columns \<lparr>columns = [], nrows = 2\<rparr>) = length [''a'']
          \<or> zero_columns_and_rows \<lparr>columns = [], nrows = 2\<rparr>)"
  by (simp add: wrapped_def chain_values_def series_first_def check_result_iter_def
      verify_element_def df_empty_def zero_columns_and_rows_def)

section \<open>Properties: the scalar iterator and map iterator loop\<close>

lemma after_loop_success:
  assumes "after_loop SQL_SCALAR_PANDAS_ITER_UDF arg_offsets st = (None, st')"
  shows "st' = st \<and> iterator st = [] \<and> num_output_rows st = num_input_rows st"
  using assms
  by (auto simp: after_loop_def next_input_def split: list.splits sum.splits prod.splits if_splits)

lemma drive_success:
  "drive SQL_SCALAR_PANDAS_ITER_UDF arg_offsets g st = (out, None, st') \<Longrightarrow>
     iterator st' = [] \<and> num_output_rows st' = num_input_rows st'
     \<and> num_output_rows st' = num_output_rows st + output_rows out"
proof (induction g arbitrary: st out st')
  case (Pull k)
  obtain res st1 where n: "next_input arg_offsets st = (res, st1)"
    by (cases "next_input arg_offsets st")
  have o: "num_output_rows st1 = num_output_rows st"
    using n by (auto simp: next_input_def split: list.splits sum.splits prod.splits)
  from Pull.prems n have "drive SQL_SCALAR_PANDAS_ITER_UDF arg_offsets (k res) st1 = (out, None, st')"
    by simp
  from Pull.IH [OF _ this] o show ?case
    by simp
next
  case (Yield r g)
  from Yield.prems obtain n where n: "py_len (fst r) = Some n"
    by (cases "py_len (fst r)") auto
  let ?st1 = "st\<lparr>num_output_rows := num_output_rows st + n\<rparr>"
  from Yield.prems n obtain out' where
    d: "drive SQL_SCALAR_PANDAS_ITER_UDF arg_offsets g ?st1 = (out', None, st')" and
    out: "out = r # out'"
    by (auto simp: Let_def split: if_splits prod.splits)
  from Yield.IH [OF d] show ?case
    by (simp add: out output_rows_def n)
next
  case Done
  then obtain e where a: "after_loop SQL_SCALAR_PANDAS_ITER_UDF arg_offsets st = (e, st')"
    and "e = None" "out = []"
    by (auto split: prod.splits)
  with after_loop_success [of arg_offsets st st'] show ?case
    by (simp add: output_rows_def)
next
  case (Fail e)
  then show ?case by simp
qed

text \<open>
  C4. In the scalar iterator mode, at any state of the loop, a yielded batch that takes
  the output row count above the input rows read so far stops the loop with the
  assertion error; the batch is not emitted, the rest of the guest iterator is not run
  and no further input is read. After the guest iterator has ended, input that is left
  is an error (\<open>STOP_ITERATION_OCCURRED_FROM_SCALAR_ITER_PANDAS_UDF\<close>, or the exception of
  reading the batch), and so is a difference between the two row counts
  (\<open>RESULT_LENGTH_MISMATCH_FOR_SCALAR_ITER_PANDAS_UDF\<close>). Hence a run that ends without an
  error has read all input and has emitted exactly as many rows as it has read. (The
  overrun check is a Python \<^verbatim>\<open>assert\<close>: it is there when assertions are enabled.)
\<close>

theorem scalar_iter_overrun_and_leftover_are_errors:
  "(py_len (fst r) = Some n \<and> num_input_rows st < num_output_rows st + n \<longrightarrow>
      drive SQL_SCALAR_PANDAS_ITER_UDF arg_offsets (Yield r g) st
        = ([], Some (AssertionError ''Pandas SCALAR_ITER UDF outputted more rows than input rows.''),
           st\<lparr>num_output_rows := num_output_rows st + n\<rparr>))
   \<and> (iterator st = batch # rest \<longrightarrow>
        (\<exists>st'. drive SQL_SCALAR_PANDAS_ITER_UDF arg_offsets Done st
          = ([], Some (case map_batch arg_offsets batch of
                         Inl e \<Rightarrow> e
                       | Inr v \<Rightarrow> PySparkRuntimeError ''STOP_ITERATION_OCCURRED_FROM_SCALAR_ITER_PANDAS_UDF''),
             st')))
   \<and> (iterator st = [] \<and> num_output_rows st \<noteq> num_input_rows st \<longrightarrow>
        drive SQL_SCALAR_PANDAS_ITER_UDF arg_offsets Done st
          = ([], Some (PySparkRuntimeError ''RESULT_LENGTH_MISMATCH_FOR_SCALAR_ITER_PANDAS_UDF''), st))
   \<and> (\<forall>out st'. iter_func SQL_SCALAR_PANDAS_ITER_UDF arg_offsets udf batches = (out, None, st') \<longrightarrow>
        iterator st' = [] \<and> num_output_rows st' = num_input_rows st'
        \<and> num_output_rows st' = output_rows out)"
proof (intro conjI impI allI)
  assume "py_len (fst r) = Some n \<and> num_input_rows st < num_output_rows st + n"
  then show "drive SQL_SCALAR_PANDAS_ITER_UDF arg_offsets (Yield r g) st
        = ([], Some (AssertionError ''Pandas SCALAR_ITER UDF outputted more rows than input rows.''),
           st\<lparr>num_output_rows := num_output_rows st + n\<rparr>)"
    by (simp add: Let_def)
next
  assume "iterator st = batch # rest"
  then show "\<exists>st'. drive SQL_SCALAR_PANDAS_ITER_UDF arg_offsets Done st
          = ([], Some (case map_batch arg_offsets batch of
                         Inl e \<Rightarrow> e
                       | Inr v \<Rightarrow> PySparkRuntimeError ''STOP_ITERATION_OCCURRED_FROM_SCALAR_ITER_PANDAS_UDF''),
             st')"
    by (cases "map_batch arg_offsets batch") (auto simp: after_loop_def next_input_def)
next
  assume "iterator st = [] \<and> num_output_rows st \<noteq> num_input_rows st"
  then show "drive SQL_SCALAR_PANDAS_ITER_UDF arg_offsets Done st
          = ([], Some (PySparkRuntimeError ''RESULT_LENGTH_MISMATCH_FOR_SCALAR_ITER_PANDAS_UDF''), st)"
    by (simp add: after_loop_def next_input_def)
next
  fix out st'
  assume "iter_func SQL_SCALAR_PANDAS_ITER_UDF arg_offsets udf batches = (out, None, st')"
  then have "drive SQL_SCALAR_PANDAS_ITER_UDF arg_offsets udf
      \<lparr>num_input_rows = 0, num_output_rows = 0, iterator = batches\<rparr> = (out, None, st')"
    by (simp add: iter_func_def)
  from drive_success [OF this]
  show "iterator st' = []" and "num_output_rows st' = num_input_rows st'"
    and "num_output_rows st' = output_rows out"
    by simp_all
qed

theorem scalar_iter_overrun_and_leftover_are_errors_witness:
  "iter_func SQL_SCALAR_PANDAS_ITER_UDF [0]
      (Pull (\<lambda>x. Yield (PdSeries [PyInt 1, PyInt 2, PyInt 3, PyInt 4, PyInt 5, PyInt 6], ''long'')
                    (Pull (\<lambda>y. Done))))
      [[PdSeries [PyInt 1, PyInt 2, PyInt 3, PyInt 4, PyInt 5]], [PdSeries [PyInt 6]]]
   = ([], Some (AssertionError ''Pandas SCALAR_ITER UDF outputted more rows than input rows.''),
      \<lparr>num_input_rows = 5, num_output_rows = 6, iterator = [[PdSeries [PyInt 6]]]\<rparr>)"
proof -
  let ?r = "(PdSeries [PyInt 1, PyInt 2, PyInt 3, PyInt 4, PyInt 5, PyInt 6], ''long'')"
  let ?st = "\<lparr>num_input_rows = 5, num_output_rows = 0, iterator = [[PdSeries [PyInt 6]]]\<rparr>"
  have pull: "next_input [0] \<lparr>num_input_rows = 0, num_output_rows = 0,
        iterator = [[PdSeries [PyInt 1, PyInt 2, PyInt 3, PyInt 4, PyInt 5]], [PdSeries [PyInt 6]]]\<rparr>
      = (Item (PdSeries [PyInt 1, PyInt 2, PyInt 3, PyInt 4, PyInt 5]), ?st)"
    by (simp add: next_input_def map_batch_def py_index_def)
  have h: "py_len (fst ?r) = Some 6 \<and> num_input_rows ?st < num_output_rows ?st + 6"
    by simp
  have "drive SQL_SCALAR_PANDAS_ITER_UDF [0] (Yield ?r (Pull (\<lambda>y. Done))) ?st
      = ([], Some (AssertionError ''Pandas SCALAR_ITER UDF outputted more rows than input rows.''),
         ?st\<lparr>num_output_rows := num_output_rows ?st + 6\<rparr>)"
    using scalar_iter_overrun_and_leftover_are_errors [of ?r 6 ?st "[0]" "Pull (\<lambda>y. Done)"] h
    by blast
  then show ?thesis
    by (simp add: iter_func_def pull)
qed

section \<open>Properties: the task runner's preamble\<close>

text \<open>
  C9. When the first field read, the partition index, is \<open>-1\<close>, the worker ends with
  \<^verbatim>\<open>sys.exit(-1)\<close>, a non-zero exit, and the input stream is left as it was right after
  that field: nothing more is read, whatever the rest of the task would do. (On the way
  out the \<open>SystemExit\<close> is reported on the output stream, when that can be written.)
\<close>

theorem partition_index_minus_one_aborts:
  assumes "read_int env infile = Inr (- 1, infile')"
  shows "main env infile
           = \<lparr>outcome = Exited (- 1), infile_left = infile',
              reported = (if report_writable env then Some (SystemExit (- 1)) else None)\<rparr>
         \<and> outcome (main env infile) \<noteq> Exited 0
         \<and> main (env\<lparr>run_task := other_task\<rparr>) infile = main env infile"
  using assms by (simp add: main_def on_exception_def)

theorem partition_index_minus_one_aborts_witness:
  "main \<lparr>read_int = (\<lambda>s. case s of [] \<Rightarrow> Inl EOFError | x # xs \<Rightarrow> Inr (x, xs)),
         run_task = (\<lambda>i s. (Inr (), [])), END_OF_STREAM = - 4, report_writable = True\<rparr>
      [- 1, 7, 8]
   = \<lparr>outcome = Exited (- 1), infile_left = [7, 8], reported = Some (SystemExit (- 1))\<rparr>"
proof -
  let ?env = "\<lparr>read_int = (\<lambda>s. case s of [] \<Rightarrow> Inl EOFError | x # xs \<Rightarrow> Inr (x, xs)),
         run_task = (\<lambda>i s. (Inr (), [])), END_OF_STREAM = - 4, report_writable = True\<rparr>
         :: int list collaborators"
  have r: "read_int ?env [- 1, 7, 8] = Inr (- 1, [7, 8])"
    by simp
  show ?thesis
    using partition_index_minus_one_aborts [OF r] by simp
qed

section \<open>Properties: table functions\<close>

lemma well_behavedD:
  assumes "well_behaved verify h"
  shows "\<exists>s0 ev tm. init h = Inr s0 \<and> eval_attr h = Method ev \<and> terminate_attr h = Method tm
           \<and> (\<forall>s a kw. accepted verify (ev s a kw)) \<and> (\<forall>s. accepted verify (tm s))"
  using assms
  by (auto simp: well_behaved_def split: sum.splits attr.splits)

lemma acceptedD:
  assumes "accepted verify r"
  obtains res s' out where "r = (Inr res, s')" "yield_rows verify res = Inr out"
  using assms by (auto simp: accepted_def split: prod.splits sum.splits)

lemma eval_current_ok:
  assumes "well_behaved verify h"
  shows "\<exists>out s'. eval_current verify h st args kw
           = (Inr out, st\<lparr>udtf_instance := s', trace := trace st @ [EvalCalled args kw]\<rparr>)"
proof -
  from assms obtain s0 ev tm where ev: "init h = Inr s0" "eval_attr h = Method ev"
    "terminate_attr h = Method tm" "\<forall>s a kw. accepted verify (ev s a kw)" "\<forall>s. accepted verify (tm s)"
    using well_behavedD by blast
  from ev(4) [rule_format, of "udtf_instance st" args kw] obtain res s' out where
    "ev (udtf_instance st) args kw = (Inr res, s')" "yield_rows verify res = Inr out"
    by (rule acceptedD)
  then show ?thesis
    by (auto simp: eval_current_def ev(2))
qed

lemma terminate_current_ok:
  assumes "well_behaved verify h"
  shows "\<exists>res out s'. terminate_current h st
           = (Inr (Some res), st\<lparr>udtf_instance := s', trace := trace st @ [TerminateCalled]\<rparr>)
           \<and> yield_rows verify res = Inr out"
proof -
  from assms obtain s0 ev tm where tm: "init h = Inr s0" "eval_attr h = Method ev"
    "terminate_attr h = Method tm" "\<forall>s a kw. accepted verify (ev s a kw)" "\<forall>s. accepted verify (tm s)"
    using well_behavedD by blast
  from tm(5) [rule_format, of "udtf_instance st"] obtain res s' out where
    "tm (udtf_instance st) = (Inr res, s')" "yield_rows verify res = Inr out"
    by (rule acceptedD)
  then show ?thesis
    by (auto simp: terminate_current_def tm(3))
qed

lemma check_first_row:
  assumes "prev_arguments st = []"
  shows "check_partition_boundaries pci st args = (Inr False, st\<lparr>prev_arguments := args\<rparr>)"
  using assms by (simp add: check_partition_boundaries_def)

lemma check_next_row:
  assumes "prev_arguments st = [PyRow (PyInt k0 # rest0)]"
  shows "check_partition_boundaries [0] st [PyRow (PyInt k # rest)]
           = (Inr (k \<noteq> k0), st\<lparr>prev_arguments := [PyRow (PyInt k # rest)]\<rparr>)"
  using assms by (auto simp: check_partition_boundaries_def partition_values_def py_index_def)

lemma partitions_eval_step:
  assumes wb: "well_behaved verify h"
    and prev: "prev_arguments st = (case prev of None \<Rightarrow> [] | Some (k0, rest0) \<Rightarrow> [PyRow (PyInt k0 # rest0)])"
  shows "\<exists>out st'. partitions_eval verify [0] h st [PyRow (PyInt k # rest)] [] = (Inr out, st')
           \<and> trace st' = trace st @ lifecycle (map_option fst prev) [(k, rest)]
           \<and> prev_arguments st' = [PyRow (PyInt k # rest)]
           \<and> kind st' = kind st"
proof -
  let ?args = "[PyRow (PyInt k # rest)]"
  let ?st1 = "st\<lparr>prev_arguments := ?args\<rparr>"
  define changed where "changed = (case prev of None \<Rightarrow> False | Some (k0, rest0) \<Rightarrow> k \<noteq> k0)"
  define steps where "steps = (if changed then [TerminateCalled, Created] else []) @ [EvalCalled ?args []]"
  have chk: "check_partition_boundaries [0] st ?args = (Inr changed, ?st1)"
  proof (cases prev)
    case None
    with prev show ?thesis by (simp add: check_first_row changed_def)
  next
    case (Some p)
    obtain k0 rest0 where p: "p = (k0, rest0)" by (cases p)
    with prev Some show ?thesis by (simp add: check_next_row changed_def)
  qed
  have lc: "lifecycle (map_option fst prev) [(k, rest)] = steps"
    by (cases prev) (auto simp: changed_def steps_def)
  have "\<exists>out st'. partitions_eval verify [0] h st ?args [] = (Inr out, st')
           \<and> trace st' = trace st @ steps
           \<and> prev_arguments st' = ?args
           \<and> kind st' = kind st"
  proof (cases changed)
    case False
    obtain out s' where "eval_current verify h ?st1 ?args []
        = (Inr out, ?st1\<lparr>udtf_instance := s', trace := trace ?st1 @ [EvalCalled ?args []]\<rparr>)"
      using eval_current_ok [OF wb] by blast
    with False show ?thesis
      by (simp add: partitions_eval_def chk steps_def)
  next
    case True
    obtain res out1 s1 where t: "terminate_current h ?st1
        = (Inr (Some res), ?st1\<lparr>udtf_instance := s1, trace := trace ?st1 @ [TerminateCalled]\<rparr>)"
        "yield_rows verify res = Inr out1"
      using terminate_current_ok [OF wb] by blast
    let ?st2 = "?st1\<lparr>udtf_instance := s1, trace := trace ?st1 @ [TerminateCalled]\<rparr>"
    from wb obtain s0 ev tm where "init h = Inr s0" "eval_attr h = Method ev"
      "terminate_attr h = Method tm" "\<forall>s a kw. accepted verify (ev s a kw)" "\<forall>s. accepted verify (tm s)"
      using well_behavedD by blast
    then have c: "create_udtf h ?st2 = Inr (?st2\<lparr>udtf_instance := s0, trace := trace ?st2 @ [Created]\<rparr>)"
      by (simp add: create_udtf_def)
    let ?st3 = "?st2\<lparr>udtf_instance := s0, trace := trace ?st2 @ [Created]\<rparr>"
    obtain out2 s' where e: "eval_current verify h ?st3 ?args []
        = (Inr out2, ?st3\<lparr>udtf_instance := s', trace := trace ?st3 @ [EvalCalled ?args []]\<rparr>)"
      using eval_current_ok [OF wb] by blast
    from True show ?thesis
      using t c e by (simp add: partitions_eval_def chk steps_def)
  qed
  then show ?thesis
    unfolding lc .
qed

lemma lifecycle_Cons:
  "lifecycle prev (row # rows) = lifecycle prev [row] @ lifecycle (Some (fst row)) rows"
  by (cases row) simp

lemma mapper_loop_trace:
  assumes wb: "well_behaved verify h"
    and k: "kind st = WithPartitions"
    and prev: "prev_arguments st = (case prev of None \<Rightarrow> [] | Some (k0, rest0) \<Rightarrow> [PyRow (PyInt k0 # rest0)])"
  shows "\<exists>outs st'. mapper_loop verify [0] [0] [] h st (map (\<lambda>(k, rest). [PyRow (PyInt k # rest)]) rows)
             = (outs, None, st')
           \<and> length outs = length rows
           \<and> trace st' = trace st @ lifecycle (map_option fst prev) rows
           \<and> kind st' = WithPartitions"
  using k prev
proof (induction rows arbitrary: st prev)
  case Nil
  then show ?case by simp
next
  case (Cons row rows)
  obtain k rest where row: "row = (k, rest)" by (cases row)
  obtain out st1 where
    e: "partitions_eval verify [0] h st [PyRow (PyInt k # rest)] [] = (Inr out, st1)" and
    t1: "trace st1 = trace st @ lifecycle (map_option fst prev) [(k, rest)]" and
    p1: "prev_arguments st1 = [PyRow (PyInt k # rest)]" and
    k1: "kind st1 = kind st"
    using partitions_eval_step [OF wb Cons.prems(2)] by blast
  have p1': "prev_arguments st1 = (case Some (k, rest) of None \<Rightarrow> [] | Some (k0, rest0) \<Rightarrow> [PyRow (PyInt k0 # rest0)])"
    using p1 by simp
  have k1': "kind st1 = WithPartitions"
    using k1 Cons.prems(1) by simp
  obtain outs st' where
    l: "mapper_loop verify [0] [0] [] h st1 (map (\<lambda>(k, rest). [PyRow (PyInt k # rest)]) rows) = (outs, None, st')" and
    n: "length outs = length rows" and
    t: "trace st' = trace st1 @ lifecycle (map_option fst (Some (k, rest))) rows" and
    k': "kind st' = WithPartitions"
    using Cons.IH [OF k1' p1'] by blast
  have ue: "udtf_eval verify [0] h st [PyRow (PyInt k # rest)] [] = (Inr out, st1)"
    using e Cons.prems(1) by (simp add: udtf_eval_def)
  have "mapper_loop verify [0] [0] [] h st (map (\<lambda>(k, rest). [PyRow (PyInt k # rest)]) (row # rows))
      = (out # outs, None, st')"
    by (simp add: row py_index_def ue l)
  moreover have "trace st' = trace st @ lifecycle (map_option fst prev) (row # rows)"
    using t t1 lifecycle_Cons [of "map_option fst prev" row rows] by (simp add: row)
  ultimately show ?case
    using n k' by simp
qed

lemma evaluate_result_accepted:
  assumes "yield_rows verify res = Inr out"
  shows "evaluate_result verify (Inr res) = Inr out"
  using assms
  by (cases res) (auto simp: evaluate_result_def yield_rows_def split: sum.splits if_splits)

lemma table_udf_mapper_trace:
  assumes wb: "well_behaved (verify_and_convert_result (length field_list) toInternal) h"
  shows "\<exists>st0 outs st'.
      read_udtf [0] (HandlerClass h) (StructType field_list) = Inr st0
    \<and> table_udf_mapper toInternal (StructType field_list) [0] [0] [] h st0
        (map (\<lambda>(k, rest). [PyRow (PyInt k # rest)]) rows) = (outs, None, st')
    \<and> length outs = Suc (length rows)
    \<and> trace st' = Created # lifecycle None rows @ [TerminateCalled]"
proof -
  let ?verify = "verify_and_convert_result (length field_list) toInternal"
  from wb obtain s0 ev tm where h: "init h = Inr s0" "eval_attr h = Method ev"
    "terminate_attr h = Method tm"
    using well_behavedD by blast
  let ?st0 = "\<lparr>kind = WithPartitions, udtf_instance = s0, prev_arguments = [], trace = [Created]\<rparr>"
  have r: "read_udtf [0] (HandlerClass h) (StructType field_list) = Inr ?st0"
    by (simp add: read_udtf_def h hasattr_eval_def)
  have p0: "prev_arguments ?st0 = (case None of None \<Rightarrow> [] | Some (k0, rest0) \<Rightarrow> [PyRow (PyInt k0 # rest0)])"
    by simp
  have k0: "kind ?st0 = WithPartitions" by simp
  obtain outs st1 where
    l: "mapper_loop ?verify [0] [0] [] h ?st0 (map (\<lambda>(k, rest). [PyRow (PyInt k # rest)]) rows) = (outs, None, st1)" and
    n: "length outs = length rows" and
    t: "trace st1 = trace ?st0 @ lifecycle (map_option fst None) rows" and
    k1: "kind st1 = WithPartitions"
    using mapper_loop_trace [OF wb k0 p0, of rows] by auto
  obtain res out s' where
    tc: "terminate_current h st1
           = (Inr (Some res), st1\<lparr>udtf_instance := s', trace := trace st1 @ [TerminateCalled]\<rparr>)" and
    y: "yield_rows ?verify res = Inr out"
    using terminate_current_ok [OF wb] by blast
  have ut: "udtf_terminate ?verify h st1
      = (Inr out, st1\<lparr>udtf_instance := s', trace := trace st1 @ [TerminateCalled]\<rparr>)"
    by (simp add: udtf_terminate_def k1 tc evaluate_result_accepted [OF y])
  have "table_udf_mapper toInternal (StructType field_list) [0] [0] [] h ?st0
        (map (\<lambda>(k, rest). [PyRow (PyInt k # rest)]) rows)
      = (outs @ [out], None, st1\<lparr>udtf_instance := s', trace := trace st1 @ [TerminateCalled]\<rparr>)"
    by (simp add: table_udf_mapper_def l hasattr_terminate_def k1 ut)
  with r n t show ?thesis
    by simp
qed

text \<open>
  C3. A table function with the partitioning index \<open>[0]\<close> is run over five rows whose
  keys are 1, 1, 2, 2, 1 (the handler's methods return and their rows are accepted). The
  calls on handler instances are then, in order: construction, the evaluation of rows 1
  and 2, termination, construction, the evaluation of rows 3 and 4, termination,
  construction, the evaluation of row 5, and the termination at the end of the input.
  \<^verbatim>\<open>terminate\<close> is called at each key change, before the new instance is made and the
  row that opens the new partition is evaluated; three instances are created and
  \<^verbatim>\<open>terminate\<close> is called three times.
\<close>

theorem partition_boundaries_terminate_and_recreate:
  assumes "well_behaved (verify_and_convert_result (length field_list) toInternal) h"
  shows "\<exists>st0 outs st'.
      read_udtf [0] (HandlerClass h) (StructType field_list) = Inr st0
    \<and> table_udf_mapper toInternal (StructType field_list) [0] [0] [] h st0
        [[PyRow (PyInt 1 # r1)], [PyRow (PyInt 1 # r2)], [PyRow (PyInt 2 # r3)],
         [PyRow (PyInt 2 # r4)], [PyRow (PyInt 1 # r5)]] = (outs, None, st')
    \<and> length outs = 6
    \<and> trace st' =
        [Created, EvalCalled [PyRow (PyInt 1 # r1)] [], EvalCalled [PyRow (PyInt 1 # r2)] [],
         TerminateCalled, Created, EvalCalled [PyRow (PyInt 2 # r3)] [], EvalCalled [PyRow (PyInt 2 # r4)] [],
         TerminateCalled, Created, EvalCalled [PyRow (PyInt 1 # r5)] [],
         TerminateCalled]
    \<and> count_list (trace st') Created = 3
    \<and> count_list (trace st') TerminateCalled = 3"
  using table_udf_mapper_trace [OF assms,
      of "[(1, r1), (1, r2), (2, r3), (2, r4), (1, r5)]"]
  by auto

theorem partition_boundaries_terminate_and_recreate_witness:
  "count_list (trace (snd (snd (table_udf_mapper Inr (StructType [''n'']) [0] [0] []
      \<lparr>init = Inr (0 :: nat),
       eval_attr = Method (\<lambda>s a kw. (Inr (ReturnedGenerator [PyTuple [PyInt (int s)]] None), Suc s)),
       terminate_attr = Method (\<lambda>s. (Inr (ReturnedObject (PyList [PyTuple [PyInt (int s)]])), s))\<rparr>
      \<lparr>kind = WithPartitions, udtf_instance = 0, prev_arguments = [], trace = [Created]\<rparr>
      [[PyRow [PyInt 1, PyStr ''a'']], [PyRow [PyInt 1, PyStr ''b'']], [PyRow [PyInt 2, PyStr ''c'']],
       [PyRow [PyInt 2, PyStr ''d'']], [PyRow [PyInt 1, PyStr ''e'']]])))) Created = 3
   \<and> count_list (trace (snd (snd (table_udf_mapper Inr (StructType [''n'']) [0] [0] []
      \<lparr>init = Inr (0 :: nat),
       eval_attr = Method (\<lambda>s a kw. (Inr (ReturnedGenerator [PyTuple [PyInt (int s)]] None), Suc s)),
       terminate_attr = Method (\<lambda>s. (Inr (ReturnedObject (PyList [PyTuple [PyInt (int s)]])), s))\<rparr>
      \<lparr>kind = WithPartitions, udtf_instance = 0, prev_arguments = [], trace = [Created]\<rparr>
      [[PyRow [PyInt 1, PyStr ''a'']], [PyRow [PyInt 1, PyStr ''b'']], [PyRow [PyInt 2, PyStr ''c'']],
       [PyRow [PyInt 2, PyStr ''d'']], [PyRow [PyInt 1, PyStr ''e'']]])))) TerminateCalled = 3"
proof -
  let ?h = "\<lparr>init = Inr (0 :: nat),
       eval_attr = Method (\<lambda>s a kw. (Inr (ReturnedGenerator [PyTuple [PyInt (int s)]] None), Suc s)),
       terminate_attr = Method (\<lambda>s. (Inr (ReturnedObject (PyList [PyTuple [PyInt (int s)]])), s))\<rparr>"
  let ?st0 = "\<lparr>kind = WithPartitions, udtf_instance = 0 :: nat, prev_arguments = [], trace = [Created]\<rparr>"
  have wb: "well_behaved (verify_and_convert_result (length [''n'']) Inr) ?h"
    by (simp add: well_behaved_def accepted_def yield_rows_def verify_and_convert_result_def)
  have r: "read_udtf [0] (HandlerClass ?h) (StructType [''n'']) = Inr ?st0"
    by (simp add: read_udtf_def hasattr_eval_def)
  from partition_boundaries_terminate_and_recreate [OF wb, of "[PyStr ''a'']" "[PyStr ''b'']"
      "[PyStr ''c'']" "[PyStr ''d'']" "[PyStr ''e'']"]
  show ?thesis
    unfolding r by auto
qed

text \<open>
  C6. A handler class without an \<^verbatim>\<open>eval\<close> attribute is rejected by \<^verbatim>\<open>read_udtf\<close>
  when there are no partitioning indexes. With the partitioning index \<open>[0]\<close> the check
  looks at the wrapper, which always has \<^verbatim>\<open>eval\<close>: \<^verbatim>\<open>read_udtf\<close> returns, and the
  missing method shows only when the first row is evaluated, as an \<open>AttributeError\<close>.
\<close>

theorem missing_eval_with_partitions_passes_validation:
  "read_udtf [] (HandlerClass \<lparr>init = Inr (), eval_attr = Absent, terminate_attr = IsNone\<rparr>)
      (StructType [''a''])
     = Inl (PySparkRuntimeError ''MISSING_EVAL_METHOD'')
   \<and> read_udtf [0] (HandlerClass \<lparr>init = Inr (), eval_attr = Absent, terminate_attr = IsNone\<rparr>)
      (StructType [''a''])
     = Inr \<lparr>kind = WithPartitions, udtf_instance = (), prev_arguments = [], trace = [Created]\<rparr>
   \<and> table_udf_mapper Inr (StructType [''a'']) [0] [0] []
      \<lparr>init = Inr (), eval_attr = Absent, terminate_attr = IsNone\<rparr>
      \<lparr>kind = WithPartitions, udtf_instance = (), prev_arguments = [], trace = [Created]\<rparr>
      [[PyRow [PyInt 1]]]
     = ([[]], Some (AttributeError ''eval''),
        \<lparr>kind = WithPartitions, udtf_instance = (), prev_arguments = [PyRow [PyInt 1]],
         trace = [Created]\<rparr>)"
  by (simp add: read_udtf_def hasattr_eval_def table_udf_mapper_def py_index_def udtf_eval_def
      partitions_eval_def check_partition_boundaries_def eval_current_def hasattr_terminate_def
      udtf_terminate_def terminate_current_def)

end
